theory Spec2Isabelle
  imports Main "HOL-Library.Word"
begin

unbundle bit_operations_syntax

section \<open>The device core as the class drivers see it\<close>

text \<open>
  The three class drivers (CDC, DFU, RNDIS) are called by the USB device core through
  \<open>Init\<close>, \<open>DeInit\<close>, \<open>Setup\<close>, \<open>DataIn\<close>, \<open>DataOut\<close> and the control
  data-stage callbacks. Each works on the device handle \<open>pdev\<close>, whose \<open>pClassData\<close>
  is the class handle (NULL until \<open>Init\<close> has allocated it) and whose \<open>pUserData\<close>
  is the registered table of user callbacks.

  A pointer to memory the driver does not own (a caller's transmit buffer) is its 32-bit
  address. A NULL function pointer is \<open>False\<close> (or \<open>None\<close> when the callback returns data
  the driver uses); a NULL class handle is \<open>None\<close>.
\<close>

type_synonym ptr = "32 word"

datatype USBD_StatusTypeDef = USBD_OK | USBD_BUSY | USBD_FAIL

datatype USBD_SpeedTypeDef = USBD_SPEED_HIGH | USBD_SPEED_FULL | USBD_SPEED_LOW

datatype USBD_EpTypeDef =
  USBD_EP_TYPE_CTRL | USBD_EP_TYPE_ISOC | USBD_EP_TYPE_BULK | USBD_EP_TYPE_INTR

datatype USBD_EP0_StateTypeDef =
  USBD_EP0_IDLE | USBD_EP0_SETUP | USBD_EP0_DATA_IN | USBD_EP0_DATA_OUT
  | USBD_EP0_STATUS_IN | USBD_EP0_STATUS_OUT | USBD_EP0_STALL

record USBD_SetupReqTypedef =
  bmRequest :: "8 word"
  bRequest :: "8 word"
  wValue :: "16 word"
  wIndex :: "16 word"
  wLength :: "16 word"

text \<open>
  The constants of \<open>usbd_def.h\<close> and \<open>usbd_conf.h\<close> that the drivers use. The two headers
  are not part of the sources at hand, so the drivers are modelled for any values of them;
  \<open>DEVICE_HS\<close> says whether that macro is defined.
\<close>

record USBD_Def =
  USB_REQ_TYPE_MASK :: "8 word"
  USB_REQ_TYPE_STANDARD :: "8 word"
  USB_REQ_TYPE_CLASS :: "8 word"
  USB_REQ_GET_DESCRIPTOR :: "8 word"
  USB_REQ_GET_INTERFACE :: "8 word"
  USB_REQ_SET_INTERFACE :: "8 word"
  USB_HS_MAX_PACKET_SIZE :: "16 word"
  USB_FS_MAX_PACKET_SIZE :: "16 word"
  DEVICE_HS :: bool

text \<open>
  What a transfer primitive is handed: caller-owned memory, or bytes the driver holds.
  \<open>NullField\<close> is the address of a field of the class handle when the handle is NULL: the
  driver only forms that address and hands it on, it does not read or write there itself.
\<close>

datatype buffer =
  Memory ptr
  | Bytes "8 word list"
  | Words "32 word list"
  | Descriptor nat
  | NullBuffer
  | NullField

text \<open>
  Everything a driver does to its collaborators, in the order it does it: the calls to the
  endpoint primitive layer, to the control-transfer helpers, to the device core and to the
  user callbacks.
\<close>

datatype event =
  LL_OpenEP "8 word" USBD_EpTypeDef "16 word"
  | LL_CloseEP "8 word"
  | LL_FlushEP "8 word"
  | LL_Transmit "8 word" buffer "32 word"
  | LL_PrepareReceive "8 word" ptr "16 word"
  | CtlSendData buffer "32 word"
  | CtlPrepareRx "16 word"
  | CtlError
  | Core_Stop | Core_Start | Core_Delay "16 word" | Core_DeInit | Core_SystemReset
  | Itf_Init | Itf_DeInit
  | Itf_Control "8 word" "16 word"
  | Itf_Transmitted ptr "16 word"
  | Itf_Received ptr "32 word"
  | Itf_PacketReceived ptr "32 word"
  | Itf_QuerySetServer "32 word"
  | Media_Erase "32 word"
  | Media_Write "32 word" "8 word list" "32 word"
  | Media_Read "32 word" "32 word"
  | Media_GetStatus "32 word" "8 word"

record ('h, 'u) USBD_HandleTypeDef =
  pClassData :: "'h option"
  pUserData :: 'u
  dev_speed :: USBD_SpeedTypeDef
  ep0_state :: USBD_EP0_StateTypeDef
  ll_open :: "8 word list"
  ll_trace :: "event list"

text \<open>What goes wrong when the C code reads or writes where it must not.\<close>

datatype fault = NullHandle | BufferOverrun

definition emit :: "event \<Rightarrow> ('h, 'u) USBD_HandleTypeDef \<Rightarrow> ('h, 'u) USBD_HandleTypeDef" where
  "emit e pdev = pdev\<lparr>ll_trace := ll_trace pdev @ [e]\<rparr>"

text \<open>
  Modelled from the spec: the endpoint primitive layer \<open>USBD_LL_*\<close> is an external
  collaborator (OpenEndpoint, CloseEndpoint, FlushEndpoint). Opening an endpoint adds its
  address to the open endpoints, closing removes it; each call is recorded.
\<close>

definition USBD_LL_OpenEP ::
  "('h, 'u) USBD_HandleTypeDef \<Rightarrow> 8 word \<Rightarrow> USBD_EpTypeDef \<Rightarrow> 16 word \<Rightarrow> ('h, 'u) USBD_HandleTypeDef" where
  "USBD_LL_OpenEP pdev ep ty mps =
     emit (LL_OpenEP ep ty mps) (pdev\<lparr>ll_open := List.insert ep (ll_open pdev)\<rparr>)"

definition USBD_LL_CloseEP ::
  "('h, 'u) USBD_HandleTypeDef \<Rightarrow> 8 word \<Rightarrow> ('h, 'u) USBD_HandleTypeDef" where
  "USBD_LL_CloseEP pdev ep =
     emit (LL_CloseEP ep) (pdev\<lparr>ll_open := removeAll ep (ll_open pdev)\<rparr>)"

definition USBD_LL_FlushEP ::
  "('h, 'u) USBD_HandleTypeDef \<Rightarrow> 8 word \<Rightarrow> ('h, 'u) USBD_HandleTypeDef" where
  "USBD_LL_FlushEP pdev ep = emit (LL_FlushEP ep) pdev"

section \<open>CDC class driver (usbd\_cdc.c)\<close>

text \<open>
  \<open>usbd_cdc.h\<close> is not part of the sources at hand: its endpoint addresses and packet
  sizes are parameters, and the class handle has the fields \<open>usbd_cdc.c\<close> uses.
\<close>

record CDC_Def =
  CDC_IN_EP :: "8 word"
  CDC_OUT_EP :: "8 word"
  CDC_CMD_EP :: "8 word"
  CDC_DATA_HS_IN_PACKET_SIZE :: "16 word"
  CDC_DATA_HS_OUT_PACKET_SIZE :: "16 word"
  CDC_DATA_FS_IN_PACKET_SIZE :: "16 word"
  CDC_DATA_FS_OUT_PACKET_SIZE :: "16 word"
  CDC_CMD_PACKET_SIZE :: "16 word"

record USBD_CDC_HandleTypeDef =
  cdc_data :: "8 word list"
  CmdOpCode :: "8 word"
  CmdLength :: "16 word"
  RxBuffer :: ptr
  TxBuffer :: ptr
  TxLength :: "16 word"
  TxState :: USBD_StatusTypeDef

text \<open>
  The user callbacks of \<open>USBD_CDC_ItfTypeDef\<close>. \<open>Control\<close> may fill the buffer it is
  handed: it maps the request code, the buffer and the length to the buffer it leaves.
\<close>

record USBD_CDC_ItfTypeDef =
  cdc_Init :: bool
  cdc_DeInit :: bool
  cdc_Control :: "(8 word \<Rightarrow> 8 word list \<Rightarrow> 16 word \<Rightarrow> 8 word list) option"
  cdc_Received :: bool
  cdc_Transmitted :: bool

type_synonym cdc_dev = "(USBD_CDC_HandleTypeDef, USBD_CDC_ItfTypeDef) USBD_HandleTypeDef"

text \<open>
  \<open>USBD_CDC_Init\<close>. The argument \<open>malloc\<close> is what \<open>USBD_malloc\<close> returns: \<open>None\<close>
  when the allocation fails, else the fresh block with whatever it holds.
\<close>

definition USBD_CDC_Init ::
  "USBD_Def \<Rightarrow> CDC_Def \<Rightarrow> USBD_CDC_HandleTypeDef option \<Rightarrow> cdc_dev \<Rightarrow> 8 word
     \<Rightarrow> USBD_StatusTypeDef \<times> cdc_dev" where
  "USBD_CDC_Init d c malloc pdev cfgidx =
     (let hs = DEVICE_HS d \<and> dev_speed pdev = USBD_SPEED_HIGH;
          in_packet_size =
            (if hs then CDC_DATA_HS_IN_PACKET_SIZE c else CDC_DATA_FS_IN_PACKET_SIZE c);
          out_packet_size =
            (if hs then CDC_DATA_HS_OUT_PACKET_SIZE c else CDC_DATA_FS_OUT_PACKET_SIZE c);
          pdev1 = USBD_LL_OpenEP pdev (CDC_IN_EP c) USBD_EP_TYPE_BULK in_packet_size;
          pdev2 = USBD_LL_OpenEP pdev1 (CDC_OUT_EP c) USBD_EP_TYPE_BULK out_packet_size;
          pdev3 = USBD_LL_OpenEP pdev2 (CDC_CMD_EP c) USBD_EP_TYPE_INTR (CDC_CMD_PACKET_SIZE c);
          pdev4 = pdev3\<lparr>pClassData := malloc\<rparr>
      in case pClassData pdev4 of
           None \<Rightarrow> (USBD_OK, pdev4)
         | Some hcdc \<Rightarrow>
             (let pdev5 = pdev4\<lparr>pClassData :=
                    Some (hcdc\<lparr>TxState := USBD_OK, TxBuffer := 0, RxBuffer := 0\<rparr>)\<rparr>
              in (USBD_OK, if cdc_Init (pUserData pdev5) then emit Itf_Init pdev5 else pdev5)))"

definition USBD_CDC_DeInit ::
  "CDC_Def \<Rightarrow> cdc_dev \<Rightarrow> 8 word \<Rightarrow> USBD_StatusTypeDef \<times> cdc_dev" where
  "USBD_CDC_DeInit c pdev cfgidx =
     (let pdev1 = USBD_LL_CloseEP pdev (CDC_IN_EP c);
          pdev2 = USBD_LL_CloseEP pdev1 (CDC_OUT_EP c);
          pdev3 = USBD_LL_CloseEP pdev2 (CDC_CMD_EP c)
      in case pClassData pdev3 of
           None \<Rightarrow> (USBD_OK, pdev3)
         | Some hcdc \<Rightarrow>
             (let pdev4 = (if cdc_DeInit (pUserData pdev3) then emit Itf_DeInit pdev3 else pdev3)
              in (USBD_OK, pdev4\<lparr>pClassData := None\<rparr>)))"

text \<open>
  \<open>USBD_CDC_Setup\<close> takes the class handle without testing it. A class request with a
  data stage uses it. Towards the host, only the address of the array \<open>hcdc->data\<close> is
  formed and handed to \<open>Control\<close> and to \<open>USBD_CtlSendData\<close>: with a NULL handle the two
  are called with that address and \<open>Setup\<close> itself accesses nothing. From the host,
  \<open>CmdOpCode\<close> and \<open>CmdLength\<close> are written: with a NULL handle that is a write through
  the null pointer.
\<close>

definition USBD_CDC_Setup ::
  "USBD_Def \<Rightarrow> cdc_dev \<Rightarrow> USBD_SetupReqTypedef \<Rightarrow> fault + USBD_StatusTypeDef \<times> cdc_dev" where
  "USBD_CDC_Setup d pdev req =
     (let ty = bmRequest req AND USB_REQ_TYPE_MASK d in
      if ty = USB_REQ_TYPE_CLASS d then
        (if wLength req \<noteq> 0 then
           (if bmRequest req AND 0x80 \<noteq> 0 then
              (case cdc_Control (pUserData pdev) of
                 None \<Rightarrow> Inr (USBD_OK, pdev)
               | Some control \<Rightarrow>
                   (case pClassData pdev of
                      None \<Rightarrow>
                        Inr (USBD_OK,
                          emit (CtlSendData NullField (ucast (wLength req)))
                            (emit (Itf_Control (bRequest req) (wLength req)) pdev))
                    | Some hcdc \<Rightarrow>
                        (let hcdc' = hcdc\<lparr>cdc_data :=
                               control (bRequest req) (cdc_data hcdc) (wLength req)\<rparr>;
                             pdev1 = emit (Itf_Control (bRequest req) (wLength req))
                               (pdev\<lparr>pClassData := Some hcdc'\<rparr>)
                         in Inr (USBD_OK,
                              emit (CtlSendData (Bytes (cdc_data hcdc')) (ucast (wLength req)))
                                pdev1))))
            else
              (case pClassData pdev of
                 None \<Rightarrow> Inl NullHandle
               | Some hcdc \<Rightarrow>
                   Inr (USBD_OK,
                     emit (CtlPrepareRx (wLength req))
                       (pdev\<lparr>pClassData :=
                          Some (hcdc\<lparr>CmdOpCode := bRequest req, CmdLength := wLength req\<rparr>)\<rparr>))))
         else if cdc_Control (pUserData pdev) \<noteq> None then
           Inr (USBD_OK, emit (Itf_Control (bRequest req) 0) pdev)
         else Inr (USBD_OK, pdev))
      else if ty = USB_REQ_TYPE_STANDARD d then
        (if bRequest req = USB_REQ_GET_INTERFACE d then
           Inr (USBD_OK, emit (CtlSendData (Bytes [0]) 1) pdev)
         else Inr (USBD_OK, pdev))
      else Inr (USBD_OK, pdev))"

definition USBD_CDC_DataIn :: "cdc_dev \<Rightarrow> 8 word \<Rightarrow> USBD_StatusTypeDef \<times> cdc_dev" where
  "USBD_CDC_DataIn pdev epnum =
     (case pClassData pdev of
        None \<Rightarrow> (USBD_OK, pdev)
      | Some hcdc \<Rightarrow>
          (let pdev1 = pdev\<lparr>pClassData := Some (hcdc\<lparr>TxState := USBD_OK\<rparr>)\<rparr>
           in (USBD_OK,
                if cdc_Transmitted (pUserData pdev1)
                then emit (Itf_Transmitted (TxBuffer hcdc) (TxLength hcdc)) pdev1
                else pdev1)))"

text \<open>\<open>rx_size\<close> is what \<open>USBD_LL_GetRxDataSize\<close> reports for the endpoint.\<close>

definition USBD_CDC_DataOut :: "32 word \<Rightarrow> cdc_dev \<Rightarrow> 8 word \<Rightarrow> USBD_StatusTypeDef \<times> cdc_dev" where
  "USBD_CDC_DataOut rx_size pdev epnum =
     (case pClassData pdev of
        None \<Rightarrow> (USBD_OK, pdev)
      | Some hcdc \<Rightarrow>
          (USBD_OK,
            if cdc_Received (pUserData pdev)
            then emit (Itf_Received (RxBuffer hcdc) rx_size) pdev
            else pdev))"

definition USBD_CDC_EP0_RxReady :: "cdc_dev \<Rightarrow> USBD_StatusTypeDef \<times> cdc_dev" where
  "USBD_CDC_EP0_RxReady pdev =
     (case cdc_Control (pUserData pdev) of
        None \<Rightarrow> (USBD_OK, pdev)
      | Some control \<Rightarrow>
          (case pClassData pdev of
             None \<Rightarrow> (USBD_OK, pdev)
           | Some hcdc \<Rightarrow>
               (if CmdOpCode hcdc \<noteq> 0xFF then
                  (let hcdc' = hcdc\<lparr>cdc_data :=
                         control (CmdOpCode hcdc) (cdc_data hcdc) (CmdLength hcdc)\<rparr>
                   in (USBD_OK,
                        emit (Itf_Control (CmdOpCode hcdc) (CmdLength hcdc))
                          (pdev\<lparr>pClassData := Some (hcdc'\<lparr>CmdOpCode := 0xFF\<rparr>)\<rparr>)))
                else (USBD_OK, pdev))))"

text \<open>\<open>ll\<close> is the status \<open>USBD_LL_Transmit\<close> returns.\<close>

definition USBD_CDC_Transmit ::
  "CDC_Def \<Rightarrow> USBD_StatusTypeDef \<Rightarrow> cdc_dev \<Rightarrow> ptr \<Rightarrow> 16 word \<Rightarrow> USBD_StatusTypeDef \<times> cdc_dev" where
  "USBD_CDC_Transmit c ll pdev pbuff len =
     (case pClassData pdev of
        None \<Rightarrow> (USBD_FAIL, pdev)
      | Some hcdc \<Rightarrow>
          (let retval = TxState hcdc in
           if retval = USBD_OK then
             (ll, emit (LL_Transmit (CDC_IN_EP c) (Memory pbuff) (ucast len))
                    (pdev\<lparr>pClassData :=
                       Some (hcdc\<lparr>TxState := USBD_BUSY, TxBuffer := pbuff, TxLength := len\<rparr>)\<rparr>))
           else (retval, pdev)))"

text \<open>\<open>ll\<close> is the status \<open>USBD_LL_PrepareReceive\<close> returns.\<close>

definition USBD_CDC_Receive ::
  "CDC_Def \<Rightarrow> USBD_StatusTypeDef \<Rightarrow> cdc_dev \<Rightarrow> ptr \<Rightarrow> 16 word \<Rightarrow> USBD_StatusTypeDef \<times> cdc_dev" where
  "USBD_CDC_Receive c ll pdev pbuff len =
     (case pClassData pdev of
        None \<Rightarrow> (USBD_FAIL, pdev)
      | Some hcdc \<Rightarrow>
          (ll, emit (LL_PrepareReceive (CDC_OUT_EP c) pbuff len)
                 (pdev\<lparr>pClassData := Some (hcdc\<lparr>RxBuffer := pbuff\<rparr>)\<rparr>)))"

section \<open>RNDIS class driver (rndis.h, usbd\_rndis.h, usbd\_rndis.c)\<close>

subsection \<open>Wire constants and message layouts\<close>

definition REMOTE_NDIS_PACKET_MSG :: "32 word" where "REMOTE_NDIS_PACKET_MSG = 0x00000001"
definition REMOTE_NDIS_INITIALIZE_MSG :: "32 word" where "REMOTE_NDIS_INITIALIZE_MSG = 0x00000002"
definition REMOTE_NDIS_INITIALIZE_CMPLT :: "32 word" where "REMOTE_NDIS_INITIALIZE_CMPLT = 0x80000002"
definition REMOTE_NDIS_QUERY_MSG :: "32 word" where "REMOTE_NDIS_QUERY_MSG = 0x00000004"
definition REMOTE_NDIS_QUERY_CMPLT :: "32 word" where "REMOTE_NDIS_QUERY_CMPLT = 0x80000004"
definition REMOTE_NDIS_SET_MSG :: "32 word" where "REMOTE_NDIS_SET_MSG = 0x00000005"
definition REMOTE_NDIS_SET_CMPLT :: "32 word" where "REMOTE_NDIS_SET_CMPLT = 0x80000005"
definition REMOTE_NDIS_RESET_MSG :: "32 word" where "REMOTE_NDIS_RESET_MSG = 0x00000006"
definition REMOTE_NDIS_RESET_CMPLT :: "32 word" where "REMOTE_NDIS_RESET_CMPLT = 0x80000006"
definition REMOTE_NDIS_INDICATE_STATUS_MSG :: "32 word" where "REMOTE_NDIS_INDICATE_STATUS_MSG = 0x00000007"
definition REMOTE_NDIS_KEEPALIVE_MSG :: "32 word" where "REMOTE_NDIS_KEEPALIVE_MSG = 0x00000008"
definition REMOTE_NDIS_KEEPALIVE_CMPLT :: "32 word" where "REMOTE_NDIS_KEEPALIVE_CMPLT = 0x80000008"

definition RNDIS_STATUS_SUCCESS :: "32 word" where "RNDIS_STATUS_SUCCESS = 0x00000000"
definition RNDIS_STATUS_FAILURE :: "32 word" where "RNDIS_STATUS_FAILURE = 0xC0000001"

definition OID_GEN_SUPPORTED_LIST :: "32 word" where "OID_GEN_SUPPORTED_LIST = 0x00010101"

definition RNDIS_MAJOR_VERSION :: "32 word" where "RNDIS_MAJOR_VERSION = 1"
definition RNDIS_MINOR_VERSION :: "32 word" where "RNDIS_MINOR_VERSION = 0"

definition RNDIS_IN_EP :: "8 word" where "RNDIS_IN_EP = 0x82"
definition RNDIS_OUT_EP :: "8 word" where "RNDIS_OUT_EP = 0x03"
definition RNDIS_CMD_EP :: "8 word" where "RNDIS_CMD_EP = 0x81"
definition RNDIS_CMD_PACKET_SIZE :: "16 word" where "RNDIS_CMD_PACKET_SIZE = 8"
definition RNDIS_GET_ENCAPSULATED_RESPONSE :: "8 word" where "RNDIS_GET_ENCAPSULATED_RESPONSE = 0x01"

text \<open>
  Sizes and offsets of the message structs, in bytes. Every field is a 32-bit word and
  \<open>RNDIS_DEF_OPTIONAL_FIELDS\<close> is not defined, so the structs end with their headers:
  \<open>RNDIS_PacketMsgType\<close> has 11 words, \<open>RNDIS_QueryCmpltType\<close> 6, \<open>RNDIS_InitCmpltType\<close>
  13, \<open>RNDIS_IndStatusMsgType\<close> 5, the Set, Reset and KeepAlive completions 4.
\<close>

definition sizeof_RNDIS_PacketMsgType :: "32 word" where "sizeof_RNDIS_PacketMsgType = 44"
definition offsetof_DataOffset :: "32 word" where "offsetof_DataOffset = 8"
definition sizeof_RNDIS_QueryCmpltType :: "32 word" where "sizeof_RNDIS_QueryCmpltType = 24"
definition offsetof_RequestID :: "32 word" where "offsetof_RequestID = 8"
definition sizeof_RNDIS_InitCmpltType :: "32 word" where "sizeof_RNDIS_InitCmpltType = 52"
definition sizeof_RNDIS_SetCmpltType :: "32 word" where "sizeof_RNDIS_SetCmpltType = 16"
definition sizeof_RNDIS_ResetCmpltType :: "32 word" where "sizeof_RNDIS_ResetCmpltType = 16"
definition sizeof_RNDIS_KeepAliveCmpltType :: "32 word" where "sizeof_RNDIS_KeepAliveCmpltType = 16"
definition sizeof_RNDIS_IndStatusMsgType :: "32 word" where "sizeof_RNDIS_IndStatusMsgType = 20"

text \<open>
  The control buffer \<open>hrndis->data\<close> is an array of 32-bit words that the driver reads and
  writes through casts to the message structs. A field of a struct is the word at its
  index: \<open>MessageType\<close> 0, \<open>MessageLength\<close> 1, \<open>RequestID\<close> 2 (\<open>Status\<close> in the Reset
  completion and in the status indication), \<open>Oid\<close> or \<open>Status\<close> 3, \<open>InfoBufferLength\<close> 4,
  \<open>InfoBufferOffset\<close> 5, \<open>Reserved\<close> of the Set message 6. The array has at least
  \<open>RNDIS_EP0_RESERVED_SIZE = 13\<close> words, so these fields are always inside it.
\<close>

definition RNDIS_ResponseAvailable :: "8 word list" where
  "RNDIS_ResponseAvailable = [1, 0, 0, 0, 0, 0, 0, 0]"

definition RNDIS_InitCmplt :: "32 word list" where
  "RNDIS_InitCmplt =
     [REMOTE_NDIS_INITIALIZE_CMPLT, sizeof_RNDIS_InitCmpltType, 0, RNDIS_STATUS_SUCCESS,
      RNDIS_MAJOR_VERSION, RNDIS_MINOR_VERSION, 0x000000001, 0x000000000, 1,
      sizeof_RNDIS_PacketMsgType, 0, 0, 0]"

text \<open>The header of a packet message, as \<open>DataOut\<close> and \<open>TransmitMessage\<close> read it.\<close>

record RNDIS_PacketMsgType =
  MessageType :: "32 word"
  MessageLength :: "32 word"
  DataOffset :: "32 word"
  DataLength :: "32 word"

definition RNDIS_VALID_PACKET_MSG :: "RNDIS_PacketMsgType \<Rightarrow> 32 word \<Rightarrow> bool" where
  "RNDIS_VALID_PACKET_MSG PMSG MSG_LENGTH =
     (MessageLength PMSG = MSG_LENGTH \<and>
      MessageType PMSG = REMOTE_NDIS_PACKET_MSG \<and>
      MessageLength PMSG = DataLength PMSG + DataOffset PMSG + offsetof_DataOffset)"

subsection \<open>Handle and user interface\<close>

text \<open>
  An entry of the object table: the OID and its server, whose function pointer is taken
  to be set. The server is handed a pointer into the control buffer and a pointer to the
  length field; it maps the buffer, the byte offset of the first pointer and the length
  it finds to the status it returns, the buffer it leaves and the length it leaves.
\<close>

record RNDIS_ObjectInfoType =
  Oid :: "32 word"
  QuerySetServer :: "32 word list \<Rightarrow> 32 word \<Rightarrow> 32 word \<Rightarrow> 32 word \<times> 32 word list \<times> 32 word"

text \<open>
  \<open>ObjectInfo\<close> is the registered table; \<open>ObjectInfoCount\<close> is the number of its entries,
  which is what the interface struct's field of that name holds.
\<close>

record USBD_RNDIS_ItfTypeDef =
  rndis_Init :: bool
  rndis_DeInit :: bool
  PacketReceived :: bool
  ObjectInfo :: "RNDIS_ObjectInfoType list"

definition ObjectInfoCount :: "USBD_RNDIS_ItfTypeDef \<Rightarrow> 32 word" where
  "ObjectInfoCount itf = of_nat (length (ObjectInfo itf))"

record USBD_RNDIS_HandleTypeDef =
  rndis_data :: "32 word list"
  TxMsg :: ptr
  RxMsg :: ptr
  rndis_TxLength :: "16 word"
  MsgLength :: "16 word"
  MaxTransferSize :: "16 word"

type_synonym rndis_dev = "(USBD_RNDIS_HandleTypeDef, USBD_RNDIS_ItfTypeDef) USBD_HandleTypeDef"

subsection \<open>Init, DeInit, Setup\<close>

definition USBD_RNDIS_Init ::
  "USBD_Def \<Rightarrow> USBD_RNDIS_HandleTypeDef option \<Rightarrow> rndis_dev \<Rightarrow> 8 word
     \<Rightarrow> USBD_StatusTypeDef \<times> rndis_dev" where
  "USBD_RNDIS_Init d malloc pdev cfgidx =
     (let hs = DEVICE_HS d \<and> dev_speed pdev = USBD_SPEED_HIGH;
          in_packet_size = (if hs then USB_HS_MAX_PACKET_SIZE d else USB_FS_MAX_PACKET_SIZE d);
          out_packet_size = (if hs then USB_HS_MAX_PACKET_SIZE d else USB_FS_MAX_PACKET_SIZE d);
          pdev1 = USBD_LL_OpenEP pdev RNDIS_IN_EP USBD_EP_TYPE_BULK in_packet_size;
          pdev2 = USBD_LL_OpenEP pdev1 RNDIS_OUT_EP USBD_EP_TYPE_BULK out_packet_size;
          pdev3 = USBD_LL_OpenEP pdev2 RNDIS_CMD_EP USBD_EP_TYPE_INTR RNDIS_CMD_PACKET_SIZE;
          pdev4 = pdev3\<lparr>pClassData := malloc\<rparr>
      in case pClassData pdev4 of
           None \<Rightarrow> (USBD_OK, pdev4)
         | Some hrndis \<Rightarrow>
             (USBD_OK, pdev4\<lparr>pClassData :=
                Some (hrndis\<lparr>rndis_TxLength := 0,
                        MaxTransferSize := ucast (RNDIS_InitCmplt ! 9)\<rparr>)\<rparr>))"

definition USBD_RNDIS_DeInit :: "rndis_dev \<Rightarrow> 8 word \<Rightarrow> USBD_StatusTypeDef \<times> rndis_dev" where
  "USBD_RNDIS_DeInit pdev cfgidx =
     (let pdev1 = USBD_LL_CloseEP pdev RNDIS_IN_EP;
          pdev2 = USBD_LL_CloseEP pdev1 RNDIS_OUT_EP;
          pdev3 = USBD_LL_CloseEP pdev2 RNDIS_CMD_EP
      in case pClassData pdev3 of
           None \<Rightarrow> (USBD_OK, pdev3)
         | Some hrndis \<Rightarrow>
             (let pdev4 = (if rndis_DeInit (pUserData pdev3) then emit Itf_DeInit pdev3 else pdev3)
              in (USBD_OK, pdev4\<lparr>pClassData := None\<rparr>)))"

text \<open>
  \<open>USBD_RNDIS_Setup\<close> takes the class handle without testing it, and a class request
  with a data stage reads \<open>hrndis->data\<close> or writes \<open>hrndis->MsgLength\<close> through it.
\<close>

definition USBD_RNDIS_Setup ::
  "USBD_Def \<Rightarrow> rndis_dev \<Rightarrow> USBD_SetupReqTypedef \<Rightarrow> fault + USBD_StatusTypeDef \<times> rndis_dev" where
  "USBD_RNDIS_Setup d pdev req =
     (let ty = bmRequest req AND USB_REQ_TYPE_MASK d in
      if ty = USB_REQ_TYPE_CLASS d then
        (if wLength req \<noteq> 0 then
           (case pClassData pdev of
              None \<Rightarrow> Inl NullHandle
            | Some hrndis \<Rightarrow>
                (if bRequest req = RNDIS_GET_ENCAPSULATED_RESPONSE then
                   Inr (USBD_OK,
                     emit (CtlSendData (Words (rndis_data hrndis)) (rndis_data hrndis ! 1)) pdev)
                 else
                   Inr (USBD_OK,
                     emit (CtlPrepareRx (wLength req))
                       (pdev\<lparr>pClassData := Some (hrndis\<lparr>MsgLength := wLength req\<rparr>)\<rparr>))))
         else Inr (USBD_OK, pdev))
      else if ty = USB_REQ_TYPE_STANDARD d then
        (if bRequest req = USB_REQ_GET_INTERFACE d then
           Inr (USBD_OK, emit (CtlSendData (Bytes [0]) 1) pdev)
         else Inr (USBD_OK, pdev))
      else Inr (USBD_OK, pdev))"

definition USBD_RNDIS_ResponseReady :: "rndis_dev \<Rightarrow> rndis_dev" where
  "USBD_RNDIS_ResponseReady pdev =
     emit (LL_Transmit RNDIS_CMD_EP (Bytes RNDIS_ResponseAvailable) (ucast RNDIS_CMD_PACKET_SIZE)) pdev"

subsection \<open>The control-message dispatcher\<close>

text \<open>
  The loop that answers the supported-list query,
  \<^verbatim>\<open>for (i = 0; i < itf->ObjectInfoCount; i++) OIDInputBuffer[i] = itf->ObjectInfo[i].Oid;\<close>
  where \<open>OIDInputBuffer\<close> starts right after the six header words of the query completion.
  The C code does not test that the list fits into \<open>hrndis->data\<close>; a write behind the
  array's end is the fault \<open>BufferOverrun\<close>.
\<close>

fun copy_oid_list :: "RNDIS_ObjectInfoType list \<Rightarrow> nat \<Rightarrow> 32 word list \<Rightarrow> fault + 32 word list" where
  "copy_oid_list [] i buf = Inr buf"
| "copy_oid_list (e # es) i buf =
     (if 6 + i < length buf then copy_oid_list es (Suc i) (buf[6 + i := Oid e])
      else Inl BufferOverrun)"

text \<open>The search loops of the Query and Set cases stop at the first entry with the OID.\<close>

definition find_oid :: "USBD_RNDIS_ItfTypeDef \<Rightarrow> 32 word \<Rightarrow> RNDIS_ObjectInfoType option" where
  "find_oid itf oid = List.find (\<lambda>e. Oid e = oid) (ObjectInfo itf)"

definition RxReady_INITIALIZE :: "rndis_dev \<Rightarrow> USBD_RNDIS_HandleTypeDef \<Rightarrow> rndis_dev" where
  "RxReady_INITIALIZE pdev hrndis =
     (let reqId = rndis_data hrndis ! 2;
          d1 = RNDIS_InitCmplt @ drop (length RNDIS_InitCmplt) (rndis_data hrndis);
          pdev1 = (if rndis_Init (pUserData pdev) then emit Itf_Init pdev else pdev);
          d2 = d1[2 := reqId];
          d3 = (if ucast (MaxTransferSize hrndis) > d2 ! 9
                then d2[9 := ucast (MaxTransferSize hrndis)] else d2)
      in USBD_RNDIS_ResponseReady (pdev1\<lparr>pClassData := Some (hrndis\<lparr>rndis_data := d3\<rparr>)\<rparr>))"

definition RxReady_QUERY :: "rndis_dev \<Rightarrow> USBD_RNDIS_HandleTypeDef \<Rightarrow> fault + rndis_dev" where
  "RxReady_QUERY pdev hrndis =
     (let itf = pUserData pdev;
          oid = rndis_data hrndis ! 3;
          d1 = (rndis_data hrndis)
                 [0 := REMOTE_NDIS_QUERY_CMPLT,
                  3 := RNDIS_STATUS_FAILURE,
                  4 := 0,
                  5 := sizeof_RNDIS_QueryCmpltType - offsetof_RequestID];
          finish = (\<lambda>p d. USBD_RNDIS_ResponseReady
                      (p\<lparr>pClassData :=
                           Some (hrndis\<lparr>rndis_data := d[1 := sizeof_RNDIS_QueryCmpltType + d ! 4]\<rparr>)\<rparr>))
      in if oid = OID_GEN_SUPPORTED_LIST then
           (case copy_oid_list (ObjectInfo itf) 0 d1 of
              Inl f \<Rightarrow> Inl f
            | Inr d2 \<Rightarrow>
                Inr (finish pdev (d2[3 := RNDIS_STATUS_SUCCESS, 4 := ObjectInfoCount itf * 4])))
         else
           (case find_oid itf oid of
              None \<Rightarrow> Inr (finish pdev d1)
            | Some query \<Rightarrow>
                (case QuerySetServer query d1 sizeof_RNDIS_QueryCmpltType (d1 ! 4) of
                   (status, d2, len) \<Rightarrow>
                     Inr (finish (emit (Itf_QuerySetServer oid) pdev) (d2[4 := len, 3 := status])))))"

definition RxReady_SET :: "rndis_dev \<Rightarrow> USBD_RNDIS_HandleTypeDef \<Rightarrow> rndis_dev" where
  "RxReady_SET pdev hrndis =
     (let itf = pUserData pdev;
          msg = rndis_data hrndis;
          OIDInputBuffer = offsetof_RequestID + msg ! 5;
          finish = (\<lambda>p d status. USBD_RNDIS_ResponseReady
                      (p\<lparr>pClassData :=
                           Some (hrndis\<lparr>rndis_data :=
                                   d[0 := REMOTE_NDIS_SET_CMPLT,
                                     1 := sizeof_RNDIS_SetCmpltType,
                                     3 := status]\<rparr>)\<rparr>))
      in if msg ! 6 = 0 then
           (case find_oid itf (msg ! 3) of
              None \<Rightarrow> finish pdev msg RNDIS_STATUS_FAILURE
            | Some e \<Rightarrow>
                (case QuerySetServer e msg OIDInputBuffer (msg ! 4) of
                   (status, d1, len) \<Rightarrow>
                     finish (emit (Itf_QuerySetServer (msg ! 3)) pdev) (d1[4 := len]) status))
         else finish pdev msg RNDIS_STATUS_FAILURE)"

definition RxReady_RESET :: "rndis_dev \<Rightarrow> USBD_RNDIS_HandleTypeDef \<Rightarrow> rndis_dev" where
  "RxReady_RESET pdev hrndis =
     (let itf = pUserData pdev;
          pdev1 = (if rndis_DeInit itf then emit Itf_DeInit pdev else pdev);
          pdev2 = USBD_LL_FlushEP pdev1 RNDIS_IN_EP;
          pdev3 = USBD_LL_FlushEP pdev2 RNDIS_OUT_EP;
          pdev4 = (if rndis_Init itf then emit Itf_Init pdev3 else pdev3)
      in USBD_RNDIS_ResponseReady
           (pdev4\<lparr>pClassData :=
              Some (hrndis\<lparr>rndis_TxLength := 0,
                      rndis_data := (rndis_data hrndis)
                        [0 := REMOTE_NDIS_RESET_CMPLT,
                         1 := sizeof_RNDIS_ResetCmpltType,
                         2 := RNDIS_STATUS_SUCCESS,
                         3 := 1]\<rparr>)\<rparr>))"

definition RxReady_KEEPALIVE :: "rndis_dev \<Rightarrow> USBD_RNDIS_HandleTypeDef \<Rightarrow> rndis_dev" where
  "RxReady_KEEPALIVE pdev hrndis =
     USBD_RNDIS_ResponseReady
       (pdev\<lparr>pClassData :=
          Some (hrndis\<lparr>rndis_data := (rndis_data hrndis)
                  [0 := REMOTE_NDIS_KEEPALIVE_CMPLT,
                   1 := sizeof_RNDIS_KeepAliveCmpltType,
                   3 := RNDIS_STATUS_SUCCESS]\<rparr>)\<rparr>)"

definition USBD_RNDIS_EP0_RxReady :: "rndis_dev \<Rightarrow> fault + USBD_StatusTypeDef \<times> rndis_dev" where
  "USBD_RNDIS_EP0_RxReady pdev =
     (case pClassData pdev of
        None \<Rightarrow> Inr (USBD_OK, pdev)
      | Some hrndis \<Rightarrow>
          (if rndis_data hrndis ! 1 = ucast (MsgLength hrndis) then
             (let ty = rndis_data hrndis ! 0 in
              if ty = REMOTE_NDIS_INITIALIZE_MSG then Inr (USBD_OK, RxReady_INITIALIZE pdev hrndis)
              else if ty = REMOTE_NDIS_QUERY_MSG then
                (case RxReady_QUERY pdev hrndis of
                   Inl f \<Rightarrow> Inl f
                 | Inr pdev' \<Rightarrow> Inr (USBD_OK, pdev'))
              else if ty = REMOTE_NDIS_SET_MSG then Inr (USBD_OK, RxReady_SET pdev hrndis)
              else if ty = REMOTE_NDIS_RESET_MSG then Inr (USBD_OK, RxReady_RESET pdev hrndis)
              else if ty = REMOTE_NDIS_KEEPALIVE_MSG then Inr (USBD_OK, RxReady_KEEPALIVE pdev hrndis)
              else Inr (USBD_OK, pdev))
           else Inr (USBD_OK, pdev)))"

subsection \<open>The packet path and the status indication\<close>

definition USBD_RNDIS_DataIn :: "rndis_dev \<Rightarrow> 8 word \<Rightarrow> USBD_StatusTypeDef \<times> rndis_dev" where
  "USBD_RNDIS_DataIn pdev epnum =
     (case pClassData pdev of
        None \<Rightarrow> (USBD_OK, pdev)
      | Some hrndis \<Rightarrow>
          (if epnum = RNDIS_IN_EP
           then (USBD_OK, pdev\<lparr>pClassData := Some (hrndis\<lparr>rndis_TxLength := 0\<rparr>)\<rparr>)
           else (USBD_OK, pdev)))"

text \<open>
  \<open>USBD_RNDIS_DataOut\<close>. \<open>msg\<close> is the header of the message that the receive buffer
  \<open>hrndis->RxMsg\<close> now holds and \<open>rxLength\<close> is what \<open>USBD_LL_GetRxDataSize\<close> reports.
  The callback is handed the address \<open>DataOffset\<close> bytes behind the \<open>DataOffset\<close> field.
\<close>

definition USBD_RNDIS_DataOut ::
  "RNDIS_PacketMsgType \<Rightarrow> 32 word \<Rightarrow> rndis_dev \<Rightarrow> 8 word \<Rightarrow> USBD_StatusTypeDef \<times> rndis_dev" where
  "USBD_RNDIS_DataOut msg rxLength pdev epnum =
     (if PacketReceived (pUserData pdev) then
        (case pClassData pdev of
           None \<Rightarrow> (USBD_OK, pdev)
         | Some hrndis \<Rightarrow>
             (if RNDIS_VALID_PACKET_MSG msg rxLength then
                (USBD_OK,
                  emit (Itf_PacketReceived (RxMsg hrndis + offsetof_DataOffset + DataOffset msg)
                          (DataLength msg)) pdev)
              else (USBD_OK, pdev)))
      else (USBD_OK, pdev))"

text \<open>
  \<open>USBD_RNDIS_TransmitMessage\<close>. \<open>msg\<close> is the address of the message, \<open>hdr\<close> its header
  and \<open>ll\<close> the status \<open>USBD_LL_Transmit\<close> returns. \<open>TxLength\<close> is a 16-bit field.
\<close>

definition USBD_RNDIS_TransmitMessage ::
  "USBD_StatusTypeDef \<Rightarrow> rndis_dev \<Rightarrow> ptr \<Rightarrow> RNDIS_PacketMsgType \<Rightarrow> USBD_StatusTypeDef \<times> rndis_dev" where
  "USBD_RNDIS_TransmitMessage ll pdev msg hdr =
     (case pClassData pdev of
        None \<Rightarrow> (USBD_FAIL, pdev)
      | Some hrndis \<Rightarrow>
          (if rndis_TxLength hrndis = 0 then
             (ll, emit (LL_Transmit RNDIS_IN_EP (Memory msg) (MessageLength hdr))
                    (pdev\<lparr>pClassData :=
                       Some (hrndis\<lparr>TxMsg := msg, rndis_TxLength := ucast (MessageLength hdr)\<rparr>)\<rparr>))
           else (USBD_BUSY, pdev)))"

definition USBD_RNDIS_SetReceiveBuffer ::
  "USBD_StatusTypeDef \<Rightarrow> rndis_dev \<Rightarrow> ptr \<Rightarrow> 16 word \<Rightarrow> USBD_StatusTypeDef \<times> rndis_dev" where
  "USBD_RNDIS_SetReceiveBuffer ll pdev buf sz =
     (case pClassData pdev of
        None \<Rightarrow> (USBD_FAIL, pdev)
      | Some hrndis \<Rightarrow>
          (let h1 = hrndis\<lparr>RxMsg := buf\<rparr>;
               h2 = (if MaxTransferSize h1 < sz then h1\<lparr>MaxTransferSize := sz\<rparr> else h1)
           in (ll, emit (LL_PrepareReceive RNDIS_OUT_EP (RxMsg h2) sz)
                     (pdev\<lparr>pClassData := Some h2\<rparr>))))"

definition USBD_RNDIS_SendStatus ::
  "rndis_dev \<Rightarrow> 32 word \<Rightarrow> USBD_StatusTypeDef \<times> rndis_dev" where
  "USBD_RNDIS_SendStatus pdev status =
     (let retval = USBD_FAIL in
      case pClassData pdev of
        None \<Rightarrow> (retval, pdev)
      | Some hrndis \<Rightarrow>
          (if ep0_state pdev = USBD_EP0_IDLE then
             (retval,
               USBD_RNDIS_ResponseReady
                 (pdev\<lparr>pClassData :=
                    Some (hrndis\<lparr>rndis_data := (rndis_data hrndis)
                            [0 := REMOTE_NDIS_INDICATE_STATUS_MSG,
                             1 := sizeof_RNDIS_IndStatusMsgType,
                             2 := status,
                             3 := 0,
                             4 := 0]\<rparr>)\<rparr>))
           else (retval, pdev)))"

section \<open>DFU class driver (usbd\_dfu.c)\<close>

text \<open>
  \<open>usbd_dfu.h\<close> and \<open>usbd_conf.h\<close> are not part of the sources at hand. The driver is
  modelled for any values of the constants it takes from them: the codes of the nine
  protocol states, of the errors, of the manifestation sub-states, of the vendor commands
  and of the class requests, the transfer size and the configuration switches.
\<close>

record DFU_Def =
  DFU_STATE_IDLE :: "8 word"
  DFU_STATE_DNLOAD_SYNC :: "8 word"
  DFU_STATE_DNLOAD_BUSY :: "8 word"
  DFU_STATE_DNLOAD_IDLE :: "8 word"
  DFU_STATE_MANIFEST_SYNC :: "8 word"
  DFU_STATE_MANIFEST :: "8 word"
  DFU_STATE_MANIFEST_WAIT_RESET :: "8 word"
  DFU_STATE_UPLOAD_IDLE :: "8 word"
  DFU_STATE_ERROR :: "8 word"
  DFU_ERROR_NONE :: "8 word"
  DFU_ERROR_UNKNOWN :: "8 word"
  DFU_ERROR_STALLEDPKT :: "8 word"
  DFU_MANIFEST_COMPLETE :: "8 word"
  DFU_MANIFEST_IN_PROGRESS :: "8 word"
  DFU_CMD_GETCOMMANDS :: "8 word"
  DFU_CMD_SETADDRESSPOINTER :: "8 word"
  DFU_CMD_ERASE :: "8 word"
  DFU_MEDIA_ERASE :: "8 word"
  DFU_MEDIA_PROGRAM :: "8 word"
  DFU_DETACH :: "8 word"
  DFU_DOWNLOAD :: "8 word"
  DFU_UPLOAD :: "8 word"
  DFU_GETSTATUS :: "8 word"
  DFU_CLEARSTATUS :: "8 word"
  DFU_GETSTATE :: "8 word"
  DFU_ABORT :: "8 word"
  DFU_DESCRIPTOR_TYPE :: "16 word"
  USB_DFU_DESC_SIZ :: "16 word"
  USBD_DFU_XFER_SIZE :: "32 word"
  USBD_DFU_MAX_ITF_NUM :: "8 word"
  USBD_DFU_DOWNLOAD_SUPPORT :: "8 word"
  USBD_DFU_UPLOAD_SUPPORT :: "8 word"
  USBD_DFU_DETACH_SUPPORT :: "8 word"

text \<open>
  The macro \<open>DFU_MANIFEST_TOLERANT()\<close> reads bit 2 of the \<open>bmAttributes\<close> byte of the DFU
  functional descriptor, which the configuration descriptor initialises from the three
  support switches.
\<close>

definition DFU_MANIFEST_TOLERANT :: "DFU_Def \<Rightarrow> bool" where
  "DFU_MANIFEST_TOLERANT c =
     ((USBD_DFU_DOWNLOAD_SUPPORT c OR push_bit 1 (USBD_DFU_UPLOAD_SUPPORT c)
         OR push_bit 3 (USBD_DFU_DETACH_SUPPORT c)) AND 0x04 \<noteq> 0)"

text \<open>
  The status record \<open>uint8_t dev_status[6]\<close>, which the driver only reads and writes at
  constant indices: \<open>dev_status[0]\<close> is \<open>bStatus\<close>, \<open>dev_status[1]\<close> to \<open>dev_status[3]\<close>
  are the three bytes of \<open>bwPollTimeout\<close>, \<open>dev_status[4]\<close> is \<open>bState\<close> and
  \<open>dev_status[5]\<close> is \<open>iString\<close>. \<open>status_bytes\<close> is the array as it goes on the wire.
\<close>

record DFU_StatusRecord =
  bStatus :: "8 word"
  bwPollTimeout_0 :: "8 word"
  bwPollTimeout_1 :: "8 word"
  bwPollTimeout_2 :: "8 word"
  bState :: "8 word"
  iString :: "8 word"

definition status_bytes :: "DFU_StatusRecord \<Rightarrow> 8 word list" where
  "status_bytes s =
     [bStatus s, bwPollTimeout_0 s, bwPollTimeout_1 s, bwPollTimeout_2 s, bState s, iString s]"

text \<open>
  The class handle. \<open>buffer_d8\<close> is the byte view \<open>buffer.d8\<close> of the transfer buffer of
  \<open>USBD_DFU_XFER_SIZE\<close> bytes. Block number and length are only ever assigned the 16-bit
  \<open>wValue\<close> and \<open>wLength\<close> of a request.
\<close>

record USBD_DFU_HandleTypeDef =
  buffer_d8 :: "8 word list"
  dev_state :: "8 word"
  dev_status :: DFU_StatusRecord
  manif_state :: "8 word"
  wblock_num :: "32 word"
  wlength :: "32 word"
  data_ptr :: "32 word"
  alt_setting :: "8 word"

text \<open>
  The backing medium. \<open>Read\<close> is handed the transfer buffer, the address and the length
  and leaves the buffer it returns; \<open>GetStatus\<close> is handed the address, the operation
  and the status record and leaves the record it returns.
\<close>

record USBD_DFU_MediaTypeDef =
  StartAddress :: "32 word"
  dfu_Init :: bool
  dfu_DeInit :: bool
  dfu_Erase :: bool
  dfu_Write :: bool
  dfu_Read :: "(8 word list \<Rightarrow> 32 word \<Rightarrow> 32 word \<Rightarrow> 8 word list) option"
  dfu_GetStatus :: "(32 word \<Rightarrow> 8 word \<Rightarrow> DFU_StatusRecord \<Rightarrow> DFU_StatusRecord) option"

type_synonym dfu_dev = "(USBD_DFU_HandleTypeDef, USBD_DFU_MediaTypeDef) USBD_HandleTypeDef"

definition USBD_DFU_Init ::
  "DFU_Def \<Rightarrow> USBD_DFU_HandleTypeDef option \<Rightarrow> dfu_dev \<Rightarrow> 8 word \<Rightarrow> USBD_StatusTypeDef \<times> dfu_dev" where
  "USBD_DFU_Init c malloc pdev cfgidx =
     (let pdev1 = pdev\<lparr>pClassData := malloc\<rparr> in
      case pClassData pdev1 of
        None \<Rightarrow> (USBD_OK, pdev1)
      | Some hdfu \<Rightarrow>
          (let h1 = hdfu\<lparr>alt_setting := 0,
                      data_ptr := StartAddress (pUserData pdev1),
                      wblock_num := 0,
                      wlength := 0,
                      manif_state := DFU_MANIFEST_COMPLETE c,
                      dev_state := DFU_STATE_IDLE c\<rparr>;
               h2 = h1\<lparr>dev_status := (dev_status h1)
                      \<lparr>bStatus := DFU_ERROR_NONE c, bwPollTimeout_0 := 0, bwPollTimeout_1 := 0,
                       bwPollTimeout_2 := 0, bState := DFU_STATE_IDLE c, iString := 0\<rparr>\<rparr>;
               pdev2 = pdev1\<lparr>pClassData := Some h2\<rparr>
           in (USBD_OK, if dfu_Init (pUserData pdev2) then emit Itf_Init pdev2 else pdev2)))"

definition USBD_DFU_DeInit :: "dfu_dev \<Rightarrow> 8 word \<Rightarrow> USBD_StatusTypeDef \<times> dfu_dev" where
  "USBD_DFU_DeInit pdev cfgidx =
     (case pClassData pdev of
        None \<Rightarrow> (USBD_OK, pdev)
      | Some hdfu \<Rightarrow>
          (let pdev1 = (if dfu_DeInit (pUserData pdev) then emit Itf_DeInit pdev else pdev)
           in (USBD_OK, pdev1\<lparr>pClassData := None\<rparr>)))"

subsection \<open>The request handlers\<close>

text \<open>
  None of the request handlers tests the class handle before it uses it. All but
  \<open>DFU_GetState\<close> read or write a field of it; \<open>with_hdfu\<close> is that access: the fault
  \<open>NullHandle\<close> for a NULL handle, else the handler's body on the handle. \<open>set_hdfu\<close>
  stores the handle back. \<open>DFU_GetState\<close>, and the GET\_INTERFACE case of \<open>Setup\<close>, only
  take the address of a field and hand it to \<open>USBD_CtlSendData\<close>.
\<close>

definition with_hdfu ::
  "dfu_dev \<Rightarrow> (USBD_DFU_HandleTypeDef \<Rightarrow> dfu_dev) \<Rightarrow> fault + dfu_dev" where
  "with_hdfu pdev body = (case pClassData pdev of None \<Rightarrow> Inl NullHandle | Some hdfu \<Rightarrow> Inr (body hdfu))"

definition set_hdfu :: "dfu_dev \<Rightarrow> USBD_DFU_HandleTypeDef \<Rightarrow> dfu_dev" where
  "set_hdfu pdev hdfu = pdev\<lparr>pClassData := Some hdfu\<rparr>"

text \<open>
  The four assignments that follow most changes of the state:
  \<^verbatim>\<open>dev_status[1] = 0; dev_status[2] = 0; dev_status[3] = 0; dev_status[4] = dev_state;\<close>
\<close>

definition poll0_state :: "USBD_DFU_HandleTypeDef \<Rightarrow> USBD_DFU_HandleTypeDef" where
  "poll0_state hdfu =
     hdfu\<lparr>dev_status := (dev_status hdfu)
            \<lparr>bwPollTimeout_0 := 0, bwPollTimeout_1 := 0, bwPollTimeout_2 := 0,
             bState := dev_state hdfu\<rparr>\<rparr>"

definition abortable :: "DFU_Def \<Rightarrow> USBD_DFU_HandleTypeDef \<Rightarrow> bool" where
  "abortable c hdfu =
     (dev_state hdfu = DFU_STATE_IDLE c
      \<or> dev_state hdfu = DFU_STATE_DNLOAD_SYNC c
      \<or> dev_state hdfu = DFU_STATE_DNLOAD_IDLE c
      \<or> dev_state hdfu = DFU_STATE_MANIFEST_SYNC c
      \<or> dev_state hdfu = DFU_STATE_UPLOAD_IDLE c)"

text \<open>The body that \<open>DFU_Detach\<close> and \<open>DFU_Abort\<close> share, statement by statement.\<close>

definition reset_to_idle :: "DFU_Def \<Rightarrow> USBD_DFU_HandleTypeDef \<Rightarrow> USBD_DFU_HandleTypeDef" where
  "reset_to_idle c hdfu =
     (let h1 = hdfu\<lparr>dev_state := DFU_STATE_IDLE c\<rparr>;
          h2 = h1\<lparr>dev_status := (dev_status h1)
                 \<lparr>bStatus := DFU_ERROR_NONE c, bwPollTimeout_0 := 0, bwPollTimeout_1 := 0,
                  bwPollTimeout_2 := 0, bState := dev_state h1, iString := 0\<rparr>\<rparr>
      in h2\<lparr>wblock_num := 0, wlength := 0\<rparr>)"

definition DFU_Detach :: "DFU_Def \<Rightarrow> dfu_dev \<Rightarrow> USBD_SetupReqTypedef \<Rightarrow> fault + dfu_dev" where
  "DFU_Detach c pdev req =
     with_hdfu pdev (\<lambda>hdfu.
       (let pdev1 = (if abortable c hdfu then set_hdfu pdev (reset_to_idle c hdfu) else pdev)
        in if USBD_DFU_DETACH_SUPPORT c \<noteq> 0
           then emit Core_Start (emit Core_Stop pdev1)
           else emit (Core_Delay (wValue req)) pdev1))"

definition DFU_Download :: "DFU_Def \<Rightarrow> dfu_dev \<Rightarrow> USBD_SetupReqTypedef \<Rightarrow> fault + dfu_dev" where
  "DFU_Download c pdev req =
     with_hdfu pdev (\<lambda>hdfu.
       if wLength req > 0 then
         (if dev_state hdfu = DFU_STATE_IDLE c \<or> dev_state hdfu = DFU_STATE_DNLOAD_IDLE c then
            (let h1 = hdfu\<lparr>wblock_num := ucast (wValue req), wlength := ucast (wLength req)\<rparr>;
                 h2 = h1\<lparr>dev_state := DFU_STATE_DNLOAD_SYNC c\<rparr>;
                 h3 = h2\<lparr>dev_status := (dev_status h2)\<lparr>bState := dev_state h2\<rparr>\<rparr>
             in emit (CtlPrepareRx (ucast (wlength h3))) (set_hdfu pdev h3))
          else emit CtlError pdev)
       else
         (if dev_state hdfu = DFU_STATE_DNLOAD_IDLE c \<or> dev_state hdfu = DFU_STATE_IDLE c then
            set_hdfu pdev
              (poll0_state (hdfu\<lparr>manif_state := DFU_MANIFEST_IN_PROGRESS c,
                                   dev_state := DFU_STATE_MANIFEST_SYNC c\<rparr>))
          else emit CtlError pdev))"

definition DFU_Upload :: "DFU_Def \<Rightarrow> dfu_dev \<Rightarrow> USBD_SetupReqTypedef \<Rightarrow> fault + dfu_dev" where
  "DFU_Upload c pdev req =
     with_hdfu pdev (\<lambda>hdfu.
       if wLength req > 0 then
         (if dev_state hdfu = DFU_STATE_IDLE c \<or> dev_state hdfu = DFU_STATE_UPLOAD_IDLE c then
            (let h1 = hdfu\<lparr>wblock_num := ucast (wValue req), wlength := ucast (wLength req)\<rparr> in
             if wblock_num h1 = 0 then
               (let h2 = poll0_state
                      (h1\<lparr>dev_state :=
                            (if wlength h1 > 3 then DFU_STATE_IDLE c else DFU_STATE_UPLOAD_IDLE c)\<rparr>);
                    h3 = h2\<lparr>buffer_d8 := (buffer_d8 h2)
                           [0 := DFU_CMD_GETCOMMANDS c,
                            1 := DFU_CMD_SETADDRESSPOINTER c,
                            2 := DFU_CMD_ERASE c]\<rparr>
                in emit (CtlSendData (Bytes (take 3 (buffer_d8 h3))) 3) (set_hdfu pdev h3))
             else if wblock_num h1 > 1 then
               (let h2 = poll0_state (h1\<lparr>dev_state := DFU_STATE_UPLOAD_IDLE c\<rparr>);
                    addr = ((wblock_num h2 - 2) * USBD_DFU_XFER_SIZE c) + data_ptr h2
                in case dfu_Read (pUserData pdev) of
                     None \<Rightarrow>
                       emit (CtlSendData (Bytes (buffer_d8 h2)) (wlength h2)) (set_hdfu pdev h2)
                   | Some read \<Rightarrow>
                       (let h3 = h2\<lparr>buffer_d8 := read (buffer_d8 h2) addr (wlength h2)\<rparr>
                        in emit (CtlSendData (Bytes (buffer_d8 h3)) (wlength h3))
                             (emit (Media_Read addr (wlength h2)) (set_hdfu pdev h3))))
             else
               emit CtlError
                 (set_hdfu pdev (poll0_state (h1\<lparr>dev_state := DFU_ERROR_STALLEDPKT c\<rparr>))))
          else
            emit CtlError (set_hdfu pdev (hdfu\<lparr>wlength := 0, wblock_num := 0\<rparr>)))
       else
         set_hdfu pdev (poll0_state (hdfu\<lparr>dev_state := DFU_STATE_IDLE c\<rparr>)))"

definition DFU_GetStatus :: "DFU_Def \<Rightarrow> dfu_dev \<Rightarrow> fault + dfu_dev" where
  "DFU_GetStatus c pdev =
     with_hdfu pdev (\<lambda>hdfu.
       (let send = (\<lambda>p h. emit (CtlSendData (Bytes (status_bytes (dev_status h))) 6) (set_hdfu p h)) in
        if dev_state hdfu = DFU_STATE_DNLOAD_SYNC c then
          (if wlength hdfu \<noteq> 0 then
             (let h1 = poll0_state (hdfu\<lparr>dev_state := DFU_STATE_DNLOAD_BUSY c\<rparr>) in
              case dfu_GetStatus (pUserData pdev) of
                None \<Rightarrow> send pdev h1
              | Some getstatus \<Rightarrow>
                  (let cmd = (if wblock_num h1 = 0 \<and> buffer_d8 h1 ! 0 = DFU_CMD_ERASE c
                              then DFU_MEDIA_ERASE c else DFU_MEDIA_PROGRAM c)
                   in send (emit (Media_GetStatus (data_ptr h1) cmd) pdev)
                        (h1\<lparr>dev_status := getstatus (data_ptr h1) cmd (dev_status h1)\<rparr>)))
           else send pdev (poll0_state (hdfu\<lparr>dev_state := DFU_STATE_DNLOAD_IDLE c\<rparr>)))
        else if dev_state hdfu = DFU_STATE_MANIFEST_SYNC c then
          (if manif_state hdfu = DFU_MANIFEST_IN_PROGRESS c then
             (let h1 = hdfu\<lparr>dev_state := DFU_STATE_MANIFEST c\<rparr> in
              send pdev (h1\<lparr>dev_status := (dev_status h1)
                \<lparr>bwPollTimeout_0 := 1, bwPollTimeout_1 := 0, bwPollTimeout_2 := 0,
                 bState := dev_state h1\<rparr>\<rparr>))
           else if manif_state hdfu = DFU_MANIFEST_COMPLETE c \<and> DFU_MANIFEST_TOLERANT c then
             send pdev (poll0_state (hdfu\<lparr>dev_state := DFU_STATE_IDLE c\<rparr>))
           else send pdev hdfu)
        else send pdev hdfu))"

definition DFU_ClearStatus :: "DFU_Def \<Rightarrow> dfu_dev \<Rightarrow> fault + dfu_dev" where
  "DFU_ClearStatus c pdev =
     with_hdfu pdev (\<lambda>hdfu.
       if dev_state hdfu = DFU_STATE_ERROR c then
         (let h1 = hdfu\<lparr>dev_state := DFU_STATE_IDLE c\<rparr> in
          set_hdfu pdev (h1\<lparr>dev_status := (dev_status h1)
            \<lparr>bStatus := DFU_ERROR_NONE c, bwPollTimeout_0 := 0, bwPollTimeout_1 := 0,
             bwPollTimeout_2 := 0, bState := dev_state h1, iString := 0\<rparr>\<rparr>))
       else
         (let h1 = hdfu\<lparr>dev_state := DFU_STATE_ERROR c\<rparr> in
          set_hdfu pdev (h1\<lparr>dev_status := (dev_status h1)
            \<lparr>bStatus := DFU_ERROR_UNKNOWN c, bwPollTimeout_0 := 0, bwPollTimeout_1 := 0,
             bwPollTimeout_2 := 0, bState := dev_state h1, iString := 0\<rparr>\<rparr>)))"

definition DFU_GetState :: "dfu_dev \<Rightarrow> fault + dfu_dev" where
  "DFU_GetState pdev =
     Inr (emit (CtlSendData
                 (case pClassData pdev of
                    None \<Rightarrow> NullField
                  | Some hdfu \<Rightarrow> Bytes [dev_state hdfu]) 1) pdev)"

definition DFU_Abort :: "DFU_Def \<Rightarrow> dfu_dev \<Rightarrow> fault + dfu_dev" where
  "DFU_Abort c pdev =
     with_hdfu pdev (\<lambda>hdfu.
       if abortable c hdfu then set_hdfu pdev (reset_to_idle c hdfu) else pdev)"

text \<open>
  \<open>DFU_Leave\<close>. Without manifestation tolerance the C function does not return: it ends in
  \<open>USBD_DeInit\<close> and \<open>USBD_SystemReset\<close>, recorded here as the last two events.
\<close>

definition DFU_Leave :: "DFU_Def \<Rightarrow> dfu_dev \<Rightarrow> fault + dfu_dev" where
  "DFU_Leave c pdev =
     with_hdfu pdev (\<lambda>hdfu.
       (let h1 = hdfu\<lparr>manif_state := DFU_MANIFEST_COMPLETE c\<rparr> in
        if DFU_MANIFEST_TOLERANT c then
          set_hdfu pdev (poll0_state (h1\<lparr>dev_state := DFU_STATE_MANIFEST_SYNC c\<rparr>))
        else
          emit Core_SystemReset
            (emit Core_DeInit
               (set_hdfu pdev (poll0_state (h1\<lparr>dev_state := DFU_STATE_MANIFEST_WAIT_RESET c\<rparr>))))))"

subsection \<open>The control data-stage callback and Setup\<close>

text \<open>The address that a vendor command carries in bytes 1 to 4 of the buffer, little-endian.\<close>

definition command_address :: "8 word list \<Rightarrow> 32 word" where
  "command_address d8 =
     (ucast (d8 ! 1) OR push_bit 8 (ucast (d8 ! 2)) OR push_bit 16 (ucast (d8 ! 3))
        OR push_bit 24 (ucast (d8 ! 4)))"

text \<open>The branch of \<open>USBD_DFU_EP0_TxReady\<close> for the state \<open>DFU_STATE_DNLOAD_BUSY\<close>.\<close>

definition download_ready :: "DFU_Def \<Rightarrow> dfu_dev \<Rightarrow> USBD_DFU_HandleTypeDef \<Rightarrow> dfu_dev" where
  "download_ready c pdev hdfu =
     (let media = pUserData pdev;
          (pdev1, h1) =
            (if wblock_num hdfu = 0 then
               (if buffer_d8 hdfu ! 0 = DFU_CMD_GETCOMMANDS c \<and> wlength hdfu = 1 then (pdev, hdfu)
                else if buffer_d8 hdfu ! 0 = DFU_CMD_SETADDRESSPOINTER c \<and> wlength hdfu = 5 then
                  (pdev, hdfu\<lparr>data_ptr := command_address (buffer_d8 hdfu)\<rparr>)
                else if buffer_d8 hdfu ! 0 = DFU_CMD_ERASE c \<and> wlength hdfu = 5 then
                  (let h = hdfu\<lparr>data_ptr := command_address (buffer_d8 hdfu)\<rparr>
                   in (if dfu_Erase media then emit (Media_Erase (data_ptr h)) pdev else pdev, h))
                else (emit CtlError pdev, hdfu\<lparr>wlength := 0, wblock_num := 0\<rparr>))
             else if wblock_num hdfu > 1 then
               (let addr = ((wblock_num hdfu - 2) * USBD_DFU_XFER_SIZE c) + data_ptr hdfu
                in (if dfu_Write media
                    then emit (Media_Write addr (buffer_d8 hdfu) (wlength hdfu)) pdev
                    else pdev, hdfu))
             else (pdev, hdfu));
          h2 = h1\<lparr>wlength := 0, wblock_num := 0\<rparr>
      in set_hdfu pdev1 (poll0_state (h2\<lparr>dev_state := DFU_STATE_DNLOAD_SYNC c\<rparr>)))"

definition USBD_DFU_EP0_TxReady ::
  "DFU_Def \<Rightarrow> dfu_dev \<Rightarrow> fault + USBD_StatusTypeDef \<times> dfu_dev" where
  "USBD_DFU_EP0_TxReady c pdev =
     (case pClassData pdev of
        None \<Rightarrow> Inl NullHandle
      | Some hdfu \<Rightarrow>
          (if dev_state hdfu = DFU_STATE_DNLOAD_BUSY c then
             Inr (USBD_OK, download_ready c pdev hdfu)
           else if dev_state hdfu = DFU_STATE_MANIFEST c then
             (case DFU_Leave c pdev of
                Inl f \<Rightarrow> Inl f
              | Inr pdev' \<Rightarrow> Inr (USBD_OK, pdev'))
           else Inr (USBD_OK, pdev)))"

definition USBD_DFU_Setup ::
  "USBD_Def \<Rightarrow> DFU_Def \<Rightarrow> dfu_dev \<Rightarrow> USBD_SetupReqTypedef \<Rightarrow> fault + USBD_StatusTypeDef \<times> dfu_dev" where
  "USBD_DFU_Setup d c pdev req =
     (let ty = bmRequest req AND USB_REQ_TYPE_MASK d;
          done = (\<lambda>r. case r of Inl f \<Rightarrow> Inl f | Inr pdev' \<Rightarrow> Inr (USBD_OK, pdev'))
      in if ty = USB_REQ_TYPE_CLASS d then
           done
             (if bRequest req = DFU_DOWNLOAD c then DFU_Download c pdev req
              else if bRequest req = DFU_UPLOAD c then DFU_Upload c pdev req
              else if bRequest req = DFU_GETSTATUS c then DFU_GetStatus c pdev
              else if bRequest req = DFU_CLEARSTATUS c then DFU_ClearStatus c pdev
              else if bRequest req = DFU_GETSTATE c then DFU_GetState pdev
              else if bRequest req = DFU_ABORT c then DFU_Abort c pdev
              else if bRequest req = DFU_DETACH c then DFU_Detach c pdev req
              else Inr (emit CtlError pdev))
         else if ty = USB_REQ_TYPE_STANDARD d then
           done
             (if bRequest req = USB_REQ_GET_DESCRIPTOR d then
                (if drop_bit 8 (wValue req) = DFU_DESCRIPTOR_TYPE c then
                   Inr (emit (CtlSendData (Descriptor (9 * (unat (USBD_DFU_MAX_ITF_NUM c) + 1)))
                                (ucast (min (USB_DFU_DESC_SIZ c) (wLength req)))) pdev)
                 else Inr (emit (CtlSendData NullBuffer 0) pdev))
              else if bRequest req = USB_REQ_GET_INTERFACE d then
                Inr (emit (CtlSendData
                            (case pClassData pdev of
                               None \<Rightarrow> NullField
                             | Some hdfu \<Rightarrow> Bytes [alt_setting hdfu]) 1) pdev)
              else if bRequest req = USB_REQ_SET_INTERFACE d then
                (if (ucast (wValue req) :: 8 word) < USBD_DFU_MAX_ITF_NUM c then
                   with_hdfu pdev (\<lambda>hdfu. set_hdfu pdev (hdfu\<lparr>alt_setting := ucast (wValue req)\<rparr>))
                 else Inr (emit CtlError pdev))
              else Inr (emit CtlError pdev))
         else Inr (USBD_OK, pdev))"

section \<open>Reference configuration and sample inputs\<close>

text \<open>
  Where an example needs concrete values for the constants of the missing headers, it uses
  the request codes of the USB 2.0 specification, the state, status and request codes of
  the DFU 1.1 specification, the vendor command codes of ST's DFU extension and the
  endpoint numbers and packet sizes of ST's device library.
\<close>

definition usb20 :: USBD_Def where
  "usb20 = \<lparr>USB_REQ_TYPE_MASK = 0x60, USB_REQ_TYPE_STANDARD = 0x00, USB_REQ_TYPE_CLASS = 0x20,
     USB_REQ_GET_DESCRIPTOR = 0x06, USB_REQ_GET_INTERFACE = 0x0A, USB_REQ_SET_INTERFACE = 0x0B,
     USB_HS_MAX_PACKET_SIZE = 512, USB_FS_MAX_PACKET_SIZE = 64, DEVICE_HS = False\<rparr>"

definition cdc_st :: CDC_Def where
  "cdc_st = \<lparr>CDC_IN_EP = 0x81, CDC_OUT_EP = 0x01, CDC_CMD_EP = 0x82,
     CDC_DATA_HS_IN_PACKET_SIZE = 512, CDC_DATA_HS_OUT_PACKET_SIZE = 512,
     CDC_DATA_FS_IN_PACKET_SIZE = 64, CDC_DATA_FS_OUT_PACKET_SIZE = 64,
     CDC_CMD_PACKET_SIZE = 8\<rparr>"

definition dfu11 :: DFU_Def where
  "dfu11 = \<lparr>DFU_STATE_IDLE = 2, DFU_STATE_DNLOAD_SYNC = 3, DFU_STATE_DNLOAD_BUSY = 4,
     DFU_STATE_DNLOAD_IDLE = 5, DFU_STATE_MANIFEST_SYNC = 6, DFU_STATE_MANIFEST = 7,
     DFU_STATE_MANIFEST_WAIT_RESET = 8, DFU_STATE_UPLOAD_IDLE = 9, DFU_STATE_ERROR = 10,
     DFU_ERROR_NONE = 0x00, DFU_ERROR_UNKNOWN = 0x0E, DFU_ERROR_STALLEDPKT = 0x0F,
     DFU_MANIFEST_COMPLETE = 0, DFU_MANIFEST_IN_PROGRESS = 1,
     DFU_CMD_GETCOMMANDS = 0x00, DFU_CMD_SETADDRESSPOINTER = 0x21, DFU_CMD_ERASE = 0x41,
     DFU_MEDIA_ERASE = 0, DFU_MEDIA_PROGRAM = 1,
     DFU_DETACH = 0, DFU_DOWNLOAD = 1, DFU_UPLOAD = 2, DFU_GETSTATUS = 3, DFU_CLEARSTATUS = 4,
     DFU_GETSTATE = 5, DFU_ABORT = 6,
     DFU_DESCRIPTOR_TYPE = 0x21, USB_DFU_DESC_SIZ = 9,
     USBD_DFU_XFER_SIZE = 1024, USBD_DFU_MAX_ITF_NUM = 1,
     USBD_DFU_DOWNLOAD_SUPPORT = 1, USBD_DFU_UPLOAD_SUPPORT = 1, USBD_DFU_DETACH_SUPPORT = 1\<rparr>"

text \<open>A device handle with no class handle, nothing open and nothing recorded.\<close>

definition fresh_dev :: "'u \<Rightarrow> ('h, 'u) USBD_HandleTypeDef" where
  "fresh_dev itf = \<lparr>pClassData = None, pUserData = itf, dev_speed = USBD_SPEED_FULL,
     ep0_state = USBD_EP0_IDLE, ll_open = [], ll_trace = []\<rparr>"

definition cdc_itf0 :: USBD_CDC_ItfTypeDef where
  "cdc_itf0 = \<lparr>cdc_Init = True, cdc_DeInit = True,
     cdc_Control = Some (\<lambda>cmd buf len. buf), cdc_Received = True, cdc_Transmitted = True\<rparr>"

definition hcdc0 :: USBD_CDC_HandleTypeDef where
  "hcdc0 = \<lparr>cdc_data = replicate 8 0, CmdOpCode = 0xFF, CmdLength = 0, RxBuffer = 0,
     TxBuffer = 0, TxLength = 0, TxState = USBD_OK\<rparr>"

definition cdc_dev0 :: cdc_dev where
  "cdc_dev0 = (fresh_dev cdc_itf0)\<lparr>pClassData := Some hcdc0\<rparr>"

definition cdc_busy :: cdc_dev where
  "cdc_busy = cdc_dev0\<lparr>pClassData :=
     Some (hcdc0\<lparr>TxState := USBD_BUSY, TxBuffer := 0x20000100, TxLength := 5\<rparr>)\<rparr>"

text \<open>
  An RNDIS device with three registered objects, whose servers answer four bytes and leave
  the buffer alone, and a control buffer of \<open>13 + 512 / 4 = 141\<close> words.
\<close>

definition rndis_itf0 :: USBD_RNDIS_ItfTypeDef where
  "rndis_itf0 = \<lparr>rndis_Init = True, rndis_DeInit = True, PacketReceived = True,
     ObjectInfo =
       [\<lparr>Oid = 0x00010102, QuerySetServer = (\<lambda>buf off len. (RNDIS_STATUS_SUCCESS, buf, 4))\<rparr>,
        \<lparr>Oid = 0x00010103, QuerySetServer = (\<lambda>buf off len. (RNDIS_STATUS_SUCCESS, buf, 4))\<rparr>,
        \<lparr>Oid = 0x01010101, QuerySetServer = (\<lambda>buf off len. (RNDIS_STATUS_SUCCESS, buf, 4))\<rparr>]\<rparr>"

definition hrndis0 :: USBD_RNDIS_HandleTypeDef where
  "hrndis0 = \<lparr>rndis_data = replicate 141 0, TxMsg = 0, RxMsg = 0x20001000,
     rndis_TxLength = 0, MsgLength = 0, MaxTransferSize = 44\<rparr>"

definition rndis_dev0 :: rndis_dev where
  "rndis_dev0 = (fresh_dev rndis_itf0)\<lparr>pClassData := Some hrndis0\<rparr>"

definition rndis_busy :: rndis_dev where
  "rndis_busy = rndis_dev0\<lparr>pClassData :=
     Some (hrndis0\<lparr>TxMsg := 0x20002000, rndis_TxLength := 100\<rparr>)\<rparr>"

definition packet_hdr :: "32 word \<Rightarrow> 32 word \<Rightarrow> 32 word \<Rightarrow> RNDIS_PacketMsgType" where
  "packet_hdr len off dlen =
     \<lparr>MessageType = REMOTE_NDIS_PACKET_MSG, MessageLength = len, DataOffset = off,
      DataLength = dlen\<rparr>"

text \<open>
  A DFU device in state dfuIDLE over a medium that starts at \<open>0x08008000\<close>, whose
  \<open>GetStatus\<close> callback reports a poll timeout of 50 ms and whose \<open>Read\<close> leaves the
  buffer as it is.
\<close>

definition dfu_media0 :: USBD_DFU_MediaTypeDef where
  "dfu_media0 = \<lparr>StartAddress = 0x08008000, dfu_Init = True, dfu_DeInit = True,
     dfu_Erase = True, dfu_Write = True,
     dfu_Read = Some (\<lambda>buf addr len. buf),
     dfu_GetStatus = Some (\<lambda>addr cmd st. st\<lparr>bwPollTimeout_0 := 50\<rparr>)\<rparr>"

definition hdfu0 :: USBD_DFU_HandleTypeDef where
  "hdfu0 = \<lparr>buffer_d8 = replicate 1024 0, dev_state = 2,
     dev_status = \<lparr>bStatus = 0, bwPollTimeout_0 = 0, bwPollTimeout_1 = 0, bwPollTimeout_2 = 0,
       bState = 2, iString = 0\<rparr>,
     manif_state = 0, wblock_num = 0, wlength = 0, data_ptr = 0x08008000, alt_setting = 0\<rparr>"

definition dfu_dev0 :: dfu_dev where
  "dfu_dev0 = (fresh_dev dfu_media0)\<lparr>pClassData := Some hdfu0\<rparr>"

text \<open>The same device waiting in dfuDNBUSY for the data of block \<open>blk\<close>, four bytes long.\<close>

definition hdfu_busy :: "32 word \<Rightarrow> USBD_DFU_HandleTypeDef" where
  "hdfu_busy blk = hdfu0\<lparr>dev_state := 4, dev_status := (dev_status hdfu0)\<lparr>bState := 4\<rparr>,
     wblock_num := blk, wlength := 4\<rparr>"

definition dfu_busy :: "32 word \<Rightarrow> dfu_dev" where
  "dfu_busy blk = dfu_dev0\<lparr>pClassData := Some (hdfu_busy blk)\<rparr>"

text \<open>
  The same device in state \<open>st\<close> with an error, a poll timeout, a block number and a
  length on record.
\<close>

definition hdfu_in :: "8 word \<Rightarrow> USBD_DFU_HandleTypeDef" where
  "hdfu_in st = hdfu0\<lparr>dev_state := st,
     dev_status := (dev_status hdfu0)\<lparr>bStatus := 0x0E, bwPollTimeout_0 := 7, bState := st\<rparr>,
     wblock_num := 5, wlength := 64\<rparr>"

definition dfu_in :: "8 word \<Rightarrow> dfu_dev" where
  "dfu_in st = dfu_dev0\<lparr>pClassData := Some (hdfu_in st)\<rparr>"

text \<open>Sample requests: DFU\_UPLOAD of a block, SET\_LINE\_CODING, SEND\_ENCAPSULATED\_COMMAND, DFU\_GETSTATUS.\<close>

definition upload_req :: "16 word \<Rightarrow> USBD_SetupReqTypedef" where
  "upload_req blk = \<lparr>bmRequest = 0xA1, bRequest = 2, wValue = blk, wIndex = 0, wLength = 64\<rparr>"

definition set_line_coding :: USBD_SetupReqTypedef where
  "set_line_coding = \<lparr>bmRequest = 0x21, bRequest = 0x20, wValue = 0, wIndex = 0, wLength = 7\<rparr>"

definition send_encapsulated :: USBD_SetupReqTypedef where
  "send_encapsulated = \<lparr>bmRequest = 0x21, bRequest = 0x00, wValue = 0, wIndex = 0, wLength = 24\<rparr>"

definition getstatus_req :: USBD_SetupReqTypedef where
  "getstatus_req = \<lparr>bmRequest = 0xA1, bRequest = 3, wValue = 0, wIndex = 0, wLength = 6\<rparr>"

text \<open>What a call has done to its collaborators when it has returned: nothing after a fault.\<close>

definition calls :: "fault + USBD_StatusTypeDef \<times> ('h, 'u) USBD_HandleTypeDef \<Rightarrow> event list" where
  "calls r = (case r of Inl f \<Rightarrow> [] | Inr (st, pdev) \<Rightarrow> ll_trace pdev)"

text \<open>
  The sample RNDIS device after the host has sent a query for the supported-list OID, 28
  bytes long, with request id \<open>0x2A\<close>.
\<close>

definition hrndis_query :: USBD_RNDIS_HandleTypeDef where
  "hrndis_query = hrndis0\<lparr>rndis_data :=
       [REMOTE_NDIS_QUERY_MSG, 28, 0x2A, OID_GEN_SUPPORTED_LIST, 0, 0, 0, 0, 0, 0, 0, 0, 0]
         @ replicate 128 0,
     MsgLength := 28\<rparr>"

definition rndis_query :: rndis_dev where
  "rndis_query = rndis_dev0\<lparr>pClassData := Some hrndis_query\<rparr>"

text \<open>The control buffer that a call leaves in the class handle: empty after a fault.\<close>

definition response :: "fault + USBD_StatusTypeDef \<times> rndis_dev \<Rightarrow> 32 word list" where
  "response r = (case r of Inl f \<Rightarrow> []
     | Inr (st, pdev) \<Rightarrow> (case pClassData pdev of None \<Rightarrow> [] | Some h \<Rightarrow> rndis_data h))"

text \<open>
  The same query on a device with 136 registered objects: with the six header words of the
  completion that is 142 words, one more than the control buffer of 141 words holds.
\<close>

definition rndis_itf136 :: USBD_RNDIS_ItfTypeDef where
  "rndis_itf136 = rndis_itf0\<lparr>ObjectInfo :=
     map (\<lambda>k. \<lparr>Oid = 0x00010100 + of_nat k,
                QuerySetServer = (\<lambda>buf off len. (RNDIS_STATUS_SUCCESS, buf, 4))\<rparr>) [0..<136]\<rparr>"

definition rndis_query136 :: rndis_dev where
  "rndis_query136 = (fresh_dev rndis_itf136)\<lparr>pClassData := Some hrndis_query\<rparr>"

text \<open>
  A medium whose \<open>GetStatus\<close> callback reports a write error in the record it is handed:
  error code errWRITE and state dfuERROR.
\<close>

definition dfu_media_err :: USBD_DFU_MediaTypeDef where
  "dfu_media_err = dfu_media0\<lparr>dfu_GetStatus :=
     Some (\<lambda>addr cmd st. st\<lparr>bStatus := 0x03, bState := 0x0A\<rparr>)\<rparr>"

definition dnload_req :: "16 word \<Rightarrow> USBD_SetupReqTypedef" where
  "dnload_req blk = \<lparr>bmRequest = 0x21, bRequest = 1, wValue = blk, wIndex = 0, wLength = 4\<rparr>"

section \<open>The DFU status record and the protocol state\<close>

text \<open>
  The state byte of the status record agrees with the protocol state, for a handle and for
  a device that has a handle; \<open>returns_matching\<close> says that a handler returned, without a
  fault, a device for which it does.
\<close>

definition status_matches :: "USBD_DFU_HandleTypeDef \<Rightarrow> bool" where
  "status_matches hdfu = (bState (dev_status hdfu) = dev_state hdfu)"

definition matching :: "dfu_dev \<Rightarrow> bool" where
  "matching pdev = (case pClassData pdev of None \<Rightarrow> False | Some hdfu \<Rightarrow> status_matches hdfu)"

definition returns_matching :: "fault + dfu_dev \<Rightarrow> bool" where
  "returns_matching r = (case r of Inl f \<Rightarrow> False | Inr pdev \<Rightarrow> matching pdev)"

definition hdfu_of :: "fault + dfu_dev \<Rightarrow> USBD_DFU_HandleTypeDef option" where
  "hdfu_of r = (case r of Inl f \<Rightarrow> None | Inr pdev \<Rightarrow> pClassData pdev)"

text \<open>What a \<open>Setup\<close> or data-stage call returns, without its status.\<close>

definition device :: "fault + USBD_StatusTypeDef \<times> dfu_dev \<Rightarrow> fault + dfu_dev" where
  "device r = (case r of Inl f \<Rightarrow> Inl f | Inr (st, pdev) \<Rightarrow> Inr pdev)"

text \<open>
  The medium's \<open>GetStatus\<close> callback, which is handed the whole status record, leaves its
  state byte as it finds it.
\<close>

definition GetStatus_keeps_bState :: "USBD_DFU_MediaTypeDef \<Rightarrow> bool" where
  "GetStatus_keeps_bState media =
     (\<forall>getstatus addr cmd s. dfu_GetStatus media = Some getstatus \<longrightarrow>
        bState (getstatus addr cmd s) = bState s)"

text \<open>
  A GETSTATUS has returned a device whose last transfer is the six bytes of the status
  record, whose state byte is the protocol state, which is also the byte that a GETSTATE
  on that device sends.
\<close>

definition reports_state :: "fault + dfu_dev \<Rightarrow> bool" where
  "reports_state r =
     (case r of
        Inl f \<Rightarrow> False
      | Inr pdev \<Rightarrow>
          (case pClassData pdev of
             None \<Rightarrow> False
           | Some hdfu \<Rightarrow>
               last (ll_trace pdev) = CtlSendData (Bytes (status_bytes (dev_status hdfu))) 6
               \<and> status_bytes (dev_status hdfu) ! 4 = dev_state hdfu
               \<and> DFU_GetState pdev = Inr (emit (CtlSendData (Bytes [dev_state hdfu]) 1) pdev)))"

text \<open>The callback table of the device that a handler returns.\<close>

definition user :: "fault + dfu_dev \<Rightarrow> USBD_DFU_MediaTypeDef option" where
  "user r = (case r of Inl f \<Rightarrow> None | Inr pdev \<Rightarrow> Some (pUserData pdev))"

text \<open>
  Modelled from the spec: the device core, which is not among the sources, serialises
  event delivery: it hands one control request after the other to \<open>Setup\<close> and calls the
  data-stage callback between them. A run stops at the first fault.
\<close>

datatype dfu_event = Setup USBD_SetupReqTypedef | EP0_TxReady

fun dfu_run :: "USBD_Def \<Rightarrow> DFU_Def \<Rightarrow> dfu_dev \<Rightarrow> dfu_event list \<Rightarrow> fault + dfu_dev" where
  "dfu_run d c pdev [] = Inr pdev"
| "dfu_run d c pdev (Setup req # es) =
     (case USBD_DFU_Setup d c pdev req of
        Inl f \<Rightarrow> Inl f
      | Inr (st, pdev') \<Rightarrow> dfu_run d c pdev' es)"
| "dfu_run d c pdev (EP0_TxReady # es) =
     (case USBD_DFU_EP0_TxReady c pdev of
        Inl f \<Rightarrow> Inl f
      | Inr (st, pdev') \<Rightarrow> dfu_run d c pdev' es)"

section \<open>Facts about 16-bit and 32-bit words\<close>

lemma unat_ucast_16_32: "unat (ucast (w :: 16 word) :: 32 word) = unat w"
  by (simp add: unsigned_ucast_eq take_bit_nat_eq_self_iff) (rule less_trans [OF unsigned_less], simp)

lemma ucast_ge2: "2 \<le> (w :: 16 word) \<Longrightarrow> (ucast w :: 32 word) \<noteq> 0 \<and> 1 < (ucast w :: 32 word)"
proof -
  assume a: "2 \<le> w"
  from a have "2 \<le> unat w" by (simp add: word_le_nat_alt)
  with unat_ucast_16_32 [of w] have "2 \<le> unat (ucast w :: 32 word)" by simp
  then show ?thesis by (auto simp: word_less_nat_alt)
qed

lemma word32_sum_eq:
  "((a :: 32 word) = b + c + 8) = (unat a = (unat b + unat c + 8) mod 2 ^ 32)"
  by (simp add: word_unat_eq_iff unat_word_ariths mod_simps)

lemma unat_of_nat32: "n < 2 ^ 32 \<Longrightarrow> unat (of_nat n :: 32 word) = n"
  by (simp add: unsigned_of_nat take_bit_nat_eq_self_iff)

lemma unat_24_4n: "n + 6 < 2 ^ 30 \<Longrightarrow> unat (24 + of_nat (4 * n) :: 32 word) = 24 + 4 * n"
proof -
  assume a: "n + 6 < 2 ^ 30"
  have "(24 + of_nat (4 * n) :: 32 word) = of_nat (24 + 4 * n)" by simp
  moreover from a have "24 + 4 * n < 2 ^ 32" by simp
  ultimately show ?thesis by (simp only: unat_of_nat32)
qed

lemma word_ge2: "2 \<le> (w :: 32 word) \<Longrightarrow> w \<noteq> 0 \<and> 1 < w"
  by (auto simp add: word_le_nat_alt word_less_nat_alt)

section \<open>DFU block addresses\<close>

text \<open>
  Claim C1, as amended. For every DFU data operation with block number at least 2, the
  address handed to the backing medium is \<open>(block_num - 2) * XFER_SIZE + data_ptr\<close> in
  32-bit arithmetic: to \<open>Write\<close> when the data stage of a download arrives in state
  dfuDNBUSY (\<open>USBD_DFU_EP0_TxReady\<close>), and to \<open>Read\<close> when an upload is requested in
  state dfuIDLE or dfuUPLOAD-IDLE (\<open>DFU_Upload\<close>). With \<open>XFER_SIZE = 1024\<close> and base
  address \<open>0x08008000\<close>, block numbers 2, 3 and 1000 give the addresses \<open>0x08008000\<close>,
  \<open>0x08008400\<close> and \<open>0x08101800\<close>.
\<close>

theorem dfu_block_address:
  "(pClassData pdev = Some hdfu \<and> dev_state hdfu = DFU_STATE_DNLOAD_BUSY c
      \<and> 2 \<le> wblock_num hdfu \<and> dfu_Write (pUserData pdev) \<longrightarrow>
     (\<exists>pdev'. USBD_DFU_EP0_TxReady c pdev = Inr (USBD_OK, pdev') \<and>
        ll_trace pdev' = ll_trace pdev @
          [Media_Write ((wblock_num hdfu - 2) * USBD_DFU_XFER_SIZE c + data_ptr hdfu)
             (buffer_d8 hdfu) (wlength hdfu)]))
   \<and> (pClassData pdev = Some hdfu
      \<and> (dev_state hdfu = DFU_STATE_IDLE c \<or> dev_state hdfu = DFU_STATE_UPLOAD_IDLE c)
      \<and> 0 < wLength req \<and> 2 \<le> wValue req \<and> dfu_Read (pUserData pdev) = Some rd \<longrightarrow>
     (\<exists>pdev' buf. DFU_Upload c pdev req = Inr pdev' \<and>
        ll_trace pdev' = ll_trace pdev @
          [Media_Read ((ucast (wValue req) - 2) * USBD_DFU_XFER_SIZE c + data_ptr hdfu)
             (ucast (wLength req)),
           CtlSendData (Bytes buf) (ucast (wLength req))]))
   \<and> (USBD_DFU_XFER_SIZE c = 1024 \<and> data_ptr hdfu = 0x08008000 \<longrightarrow>
        (2 - 2) * USBD_DFU_XFER_SIZE c + data_ptr hdfu = 0x08008000
      \<and> (3 - 2) * USBD_DFU_XFER_SIZE c + data_ptr hdfu = 0x08008400
      \<and> (1000 - 2) * USBD_DFU_XFER_SIZE c + data_ptr hdfu = 0x08101800)"
proof (intro conjI impI)
  assume a: "pClassData pdev = Some hdfu \<and> dev_state hdfu = DFU_STATE_DNLOAD_BUSY c
      \<and> 2 \<le> wblock_num hdfu \<and> dfu_Write (pUserData pdev)"
  then have "wblock_num hdfu \<noteq> 0 \<and> 1 < wblock_num hdfu" using word_ge2 by blast
  with a show "\<exists>pdev'. USBD_DFU_EP0_TxReady c pdev = Inr (USBD_OK, pdev') \<and>
        ll_trace pdev' = ll_trace pdev @
          [Media_Write ((wblock_num hdfu - 2) * USBD_DFU_XFER_SIZE c + data_ptr hdfu)
             (buffer_d8 hdfu) (wlength hdfu)]"
    by (simp add: USBD_DFU_EP0_TxReady_def download_ready_def emit_def set_hdfu_def Let_def)
next
  assume a: "pClassData pdev = Some hdfu
      \<and> (dev_state hdfu = DFU_STATE_IDLE c \<or> dev_state hdfu = DFU_STATE_UPLOAD_IDLE c)
      \<and> 0 < wLength req \<and> 2 \<le> wValue req \<and> dfu_Read (pUserData pdev) = Some rd"
  then have "(ucast (wValue req) :: 32 word) \<noteq> 0 \<and> 1 < (ucast (wValue req) :: 32 word)"
    using ucast_ge2 by blast
  with a show "\<exists>pdev' buf. DFU_Upload c pdev req = Inr pdev' \<and>
        ll_trace pdev' = ll_trace pdev @
          [Media_Read ((ucast (wValue req) - 2) * USBD_DFU_XFER_SIZE c + data_ptr hdfu)
             (ucast (wLength req)),
           CtlSendData (Bytes buf) (ucast (wLength req))]"
    by (auto simp add: DFU_Upload_def with_hdfu_def emit_def set_hdfu_def poll0_state_def Let_def)
qed simp_all

text \<open>
  The theorem at block 1000 of the sample device: the download writes to, and the upload
  reads from, \<open>0x08101800\<close>.
\<close>

theorem dfu_block_address_witness:
  "calls (USBD_DFU_EP0_TxReady dfu11 (dfu_busy 1000))
     = [Media_Write 0x08101800 (replicate 1024 0) 4]
   \<and> calls (USBD_DFU_Setup usb20 dfu11 dfu_dev0 (upload_req 1000))
     = [Media_Read 0x08101800 64, CtlSendData (Bytes (replicate 1024 0)) 64]"
  using dfu_block_address [where pdev = "dfu_busy 1000" and hdfu = "hdfu_busy 1000" and c = dfu11]
    dfu_block_address [where pdev = dfu_dev0 and hdfu = hdfu0 and c = dfu11
      and req = "upload_req 1000" and rd = "\<lambda>buf addr len. buf"]
  by (simp add: calls_def USBD_DFU_Setup_def DFU_Upload_def with_hdfu_def
      USBD_DFU_EP0_TxReady_def download_ready_def emit_def set_hdfu_def poll0_state_def upload_req_def
      dfu_busy_def hdfu_busy_def dfu11_def usb20_def dfu_dev0_def hdfu0_def fresh_dev_def dfu_media0_def)

text \<open>
  Claim C1 as stated gives \<open>0x083FD800\<close> for block 1000. The code computes
  \<open>998 * 1024 + 0x08008000 = 0x08101800\<close>.
\<close>

theorem dfu_block_1000_counterexample:
  "calls (USBD_DFU_EP0_TxReady dfu11 (dfu_busy 1000))
     = [Media_Write 0x08101800 (replicate 1024 0) 4]
   \<and> calls (USBD_DFU_EP0_TxReady dfu11 (dfu_busy 1000))
     \<noteq> [Media_Write 0x083FD800 (replicate 1024 0) 4]
   \<and> calls (USBD_DFU_Setup usb20 dfu11 dfu_dev0 (upload_req 1000))
     = [Media_Read 0x08101800 64, CtlSendData (Bytes (replicate 1024 0)) 64]"
  by (simp add: calls_def USBD_DFU_Setup_def DFU_Upload_def with_hdfu_def
      USBD_DFU_EP0_TxReady_def download_ready_def emit_def set_hdfu_def poll0_state_def upload_req_def
      dfu_busy_def hdfu_busy_def dfu11_def usb20_def dfu_dev0_def hdfu0_def fresh_dev_def dfu_media0_def)

section \<open>Entry points on a null class handle\<close>

text \<open>
  Claim C2 says that every entry point is a safe no-op on a NULL class handle. The
  \<open>Setup\<close> functions are not: after an \<open>Init\<close> whose allocation failed, a CDC class
  request with a host-to-device data stage (SET\_LINE\_CODING), an RNDIS
  SEND\_ENCAPSULATED\_COMMAND and a DFU\_GETSTATUS each access a field of the handle through
  the null pointer, and so does the DFU data-stage callback.
\<close>

theorem setup_null_handle:
  "USBD_CDC_Setup usb20 (snd (USBD_CDC_Init usb20 cdc_st None (fresh_dev cdc_itf0) 1)) set_line_coding
     = Inl NullHandle
   \<and> USBD_RNDIS_Setup usb20 (snd (USBD_RNDIS_Init usb20 None (fresh_dev rndis_itf0) 1)) send_encapsulated
     = Inl NullHandle
   \<and> USBD_DFU_Setup usb20 dfu11 (snd (USBD_DFU_Init dfu11 None (fresh_dev dfu_media0) 1)) getstatus_req
     = Inl NullHandle
   \<and> USBD_DFU_EP0_TxReady dfu11 (snd (USBD_DFU_Init dfu11 None (fresh_dev dfu_media0) 1))
     = Inl NullHandle"
  by (simp add: USBD_CDC_Setup_def USBD_CDC_Init_def USBD_RNDIS_Setup_def USBD_RNDIS_Init_def
      USBD_DFU_Setup_def USBD_DFU_Init_def USBD_DFU_EP0_TxReady_def DFU_GetStatus_def with_hdfu_def
      USBD_LL_OpenEP_def emit_def fresh_dev_def usb20_def dfu11_def cdc_st_def cdc_itf0_def
      set_line_coding_def send_encapsulated_def getstatus_req_def Let_def)

text \<open>
  The other entry points of CDC and RNDIS do test the handle first and leave the device
  untouched when it is NULL.
\<close>

text \<open>
  Three paths through \<open>Setup\<close> only form the address of a field of the handle and hand it
  on: a CDC class request with a device-to-host data stage, DFU\_GETSTATE and the DFU
  GET\_INTERFACE request. On a NULL handle they access nothing themselves.
\<close>

lemma null_handle_address_only:
  "pClassData pdev = None \<Longrightarrow>
     DFU_GetState pdev = Inr (emit (CtlSendData NullField 1) pdev)"
  by (simp add: DFU_GetState_def)

lemma null_handle_address_only_cdc:
  "pClassData pdev = None \<Longrightarrow>
   bmRequest req AND USB_REQ_TYPE_MASK d = USB_REQ_TYPE_CLASS d \<Longrightarrow>
   wLength req \<noteq> 0 \<Longrightarrow> bmRequest req AND 0x80 \<noteq> 0 \<Longrightarrow>
   cdc_Control (pUserData pdev) = Some control \<Longrightarrow>
     USBD_CDC_Setup d pdev req
       = Inr (USBD_OK,
           emit (CtlSendData NullField (ucast (wLength req)))
             (emit (Itf_Control (bRequest req) (wLength req)) pdev))"
  by (simp add: USBD_CDC_Setup_def)

lemma null_handle_address_only_dfu:
  "pClassData pdev = None \<Longrightarrow>
   bmRequest req AND USB_REQ_TYPE_MASK d \<noteq> USB_REQ_TYPE_CLASS d \<Longrightarrow>
   bmRequest req AND USB_REQ_TYPE_MASK d = USB_REQ_TYPE_STANDARD d \<Longrightarrow>
   bRequest req \<noteq> USB_REQ_GET_DESCRIPTOR d \<Longrightarrow>
   bRequest req = USB_REQ_GET_INTERFACE d \<Longrightarrow>
     USBD_DFU_Setup d c pdev req = Inr (USBD_OK, emit (CtlSendData NullField 1) pdev)"
  by (simp add: USBD_DFU_Setup_def)

lemma null_handle_noop:
  "pClassData pdev = None \<Longrightarrow>
     USBD_CDC_DataIn pdev epnum = (USBD_OK, pdev)
   \<and> USBD_CDC_DataOut rx pdev epnum = (USBD_OK, pdev)
   \<and> USBD_CDC_EP0_RxReady pdev = (USBD_OK, pdev)
   \<and> USBD_CDC_Transmit c ll pdev pbuff len = (USBD_FAIL, pdev)
   \<and> USBD_CDC_Receive c ll pdev pbuff len = (USBD_FAIL, pdev)"
  by (simp add: USBD_CDC_DataIn_def USBD_CDC_DataOut_def USBD_CDC_EP0_RxReady_def
      USBD_CDC_Transmit_def USBD_CDC_Receive_def split: option.splits)

lemma null_handle_noop_rndis:
  "pClassData pdev = None \<Longrightarrow>
     USBD_RNDIS_DataIn pdev epnum = (USBD_OK, pdev)
   \<and> USBD_RNDIS_DataOut msg rx pdev epnum = (USBD_OK, pdev)
   \<and> USBD_RNDIS_EP0_RxReady pdev = Inr (USBD_OK, pdev)
   \<and> USBD_RNDIS_TransmitMessage ll pdev m hdr = (USBD_FAIL, pdev)
   \<and> USBD_RNDIS_SetReceiveBuffer ll pdev buf sz = (USBD_FAIL, pdev)
   \<and> USBD_RNDIS_SendStatus pdev st = (USBD_FAIL, pdev)"
  by (simp add: USBD_RNDIS_DataIn_def USBD_RNDIS_DataOut_def USBD_RNDIS_EP0_RxReady_def
      USBD_RNDIS_TransmitMessage_def USBD_RNDIS_SetReceiveBuffer_def USBD_RNDIS_SendStatus_def)

section \<open>Init when the allocation fails\<close>

text \<open>
  Claim C3, as amended. When the handle allocation inside \<open>Init\<close> fails, every class
  driver still returns \<open>USBD_OK\<close> and leaves the class handle NULL. CDC and RNDIS have
  opened their three endpoints before the allocation and leave them open; DFU opens no
  endpoint and changes nothing else.
\<close>

theorem init_alloc_failure:
  "fst (USBD_CDC_Init d c None pdev cfgidx) = USBD_OK
   \<and> pClassData (snd (USBD_CDC_Init d c None pdev cfgidx)) = None
   \<and> CDC_IN_EP c \<in> set (ll_open (snd (USBD_CDC_Init d c None pdev cfgidx)))
   \<and> CDC_OUT_EP c \<in> set (ll_open (snd (USBD_CDC_Init d c None pdev cfgidx)))
   \<and> CDC_CMD_EP c \<in> set (ll_open (snd (USBD_CDC_Init d c None pdev cfgidx)))
   \<and> fst (USBD_RNDIS_Init d None rdev cfgidx) = USBD_OK
   \<and> pClassData (snd (USBD_RNDIS_Init d None rdev cfgidx)) = None
   \<and> RNDIS_IN_EP \<in> set (ll_open (snd (USBD_RNDIS_Init d None rdev cfgidx)))
   \<and> RNDIS_OUT_EP \<in> set (ll_open (snd (USBD_RNDIS_Init d None rdev cfgidx)))
   \<and> RNDIS_CMD_EP \<in> set (ll_open (snd (USBD_RNDIS_Init d None rdev cfgidx)))
   \<and> USBD_DFU_Init dc None ddev cfgidx = (USBD_OK, ddev\<lparr>pClassData := None\<rparr>)"
  by (simp add: USBD_CDC_Init_def USBD_RNDIS_Init_def USBD_DFU_Init_def USBD_LL_OpenEP_def
      emit_def Let_def)

text \<open>The theorem on the sample devices.\<close>

theorem init_alloc_failure_witness:
  "fst (USBD_CDC_Init usb20 cdc_st None (fresh_dev cdc_itf0) 1) = USBD_OK
   \<and> set (ll_open (snd (USBD_CDC_Init usb20 cdc_st None (fresh_dev cdc_itf0) 1))) = {0x81, 0x01, 0x82}
   \<and> USBD_DFU_Init dfu11 None (fresh_dev dfu_media0) 1 = (USBD_OK, fresh_dev dfu_media0)"
  using init_alloc_failure [where d = usb20 and c = cdc_st and pdev = "fresh_dev cdc_itf0"
      and cfgidx = 1 and dc = dfu11 and ddev = "fresh_dev dfu_media0"]
  by (auto simp add: USBD_CDC_Init_def USBD_LL_OpenEP_def emit_def Let_def fresh_dev_def cdc_st_def usb20_def)

text \<open>
  Claim C3 as stated asks for a status that tells the core of the failure and for
  endpoints that are unopened or closed. \<open>USBD_RNDIS_Init\<close> with a failing allocation
  returns \<open>USBD_OK\<close> with the endpoints \<open>0x82\<close>, \<open>0x03\<close> and \<open>0x81\<close> open.
\<close>

theorem init_alloc_failure_counterexample:
  "USBD_RNDIS_Init usb20 None (fresh_dev rndis_itf0) 1
     = (USBD_OK, (fresh_dev rndis_itf0)
          \<lparr>ll_open := [0x81, 0x03, 0x82],
           ll_trace := [LL_OpenEP 0x82 USBD_EP_TYPE_BULK 64, LL_OpenEP 0x03 USBD_EP_TYPE_BULK 64,
                        LL_OpenEP 0x81 USBD_EP_TYPE_INTR 8]\<rparr>)"
  by (simp add: USBD_RNDIS_Init_def USBD_LL_OpenEP_def emit_def fresh_dev_def usb20_def
      RNDIS_IN_EP_def RNDIS_OUT_EP_def RNDIS_CMD_EP_def RNDIS_CMD_PACKET_SIZE_def Let_def)

section \<open>Transmit while a transfer is outstanding\<close>

text \<open>
  Claim C4. A Transmit on a non-null class handle while the previous transfer is still
  outstanding returns Busy and changes nothing, so the recorded buffer pointer and
  length stay those of the first transfer. For CDC (\<open>USBD_CDC_Transmit\<close>) outstanding
  means \<open>TxState\<close> is busy, for RNDIS (\<open>USBD_RNDIS_TransmitMessage\<close>) it means \<open>TxLength\<close>
  is not zero. As a sequence: after a first Transmit on an idle handle, whatever the
  endpoint layer answered, a second one returns Busy, leaves the device as the first one
  left it, and the handle still records the first buffer and length (for RNDIS when the
  first message length is not zero in the 16-bit \<open>TxLength\<close>).
\<close>

theorem transmit_while_busy:
  "(pClassData pdev = Some hcdc \<and> TxState hcdc = USBD_BUSY \<longrightarrow>
      USBD_CDC_Transmit c ll pdev pbuff len = (USBD_BUSY, pdev))
   \<and> (pClassData pdev = Some hcdc \<and> TxState hcdc = USBD_OK \<longrightarrow>
      (\<exists>h. USBD_CDC_Transmit c llb (snd (USBD_CDC_Transmit c lla pdev pa la)) pb lb
             = (USBD_BUSY, snd (USBD_CDC_Transmit c lla pdev pa la))
           \<and> pClassData (snd (USBD_CDC_Transmit c lla pdev pa la)) = Some h
           \<and> TxBuffer h = pa \<and> TxLength h = la))
   \<and> (pClassData rdev = Some hrndis \<and> rndis_TxLength hrndis \<noteq> 0 \<longrightarrow>
      USBD_RNDIS_TransmitMessage ll rdev msg hdr = (USBD_BUSY, rdev))
   \<and> (pClassData rdev = Some hrndis \<and> rndis_TxLength hrndis = 0
        \<and> (ucast (MessageLength hdra) :: 16 word) \<noteq> 0 \<longrightarrow>
      (\<exists>h. USBD_RNDIS_TransmitMessage llb (snd (USBD_RNDIS_TransmitMessage lla rdev ma hdra)) mb hdrb
             = (USBD_BUSY, snd (USBD_RNDIS_TransmitMessage lla rdev ma hdra))
           \<and> pClassData (snd (USBD_RNDIS_TransmitMessage lla rdev ma hdra)) = Some h
           \<and> TxMsg h = ma \<and> rndis_TxLength h = ucast (MessageLength hdra)))"
  by (simp add: USBD_CDC_Transmit_def USBD_RNDIS_TransmitMessage_def emit_def)

theorem transmit_while_busy_witness:
  "USBD_CDC_Transmit cdc_st USBD_OK cdc_busy 0x20000200 7 = (USBD_BUSY, cdc_busy)
   \<and> USBD_CDC_Transmit cdc_st USBD_OK
        (snd (USBD_CDC_Transmit cdc_st USBD_OK cdc_dev0 0x20000100 5)) 0x20000200 7
       = (USBD_BUSY, snd (USBD_CDC_Transmit cdc_st USBD_OK cdc_dev0 0x20000100 5))
   \<and> USBD_RNDIS_TransmitMessage USBD_OK rndis_busy 0x20003000 (packet_hdr 100 36 56)
       = (USBD_BUSY, rndis_busy)
   \<and> USBD_RNDIS_TransmitMessage USBD_OK
        (snd (USBD_RNDIS_TransmitMessage USBD_OK rndis_dev0 0x20002000 (packet_hdr 100 36 56)))
        0x20003000 (packet_hdr 64 36 20)
       = (USBD_BUSY,
          snd (USBD_RNDIS_TransmitMessage USBD_OK rndis_dev0 0x20002000 (packet_hdr 100 36 56)))"
  using transmit_while_busy [where pdev = cdc_busy
      and hcdc = "hcdc0\<lparr>TxState := USBD_BUSY, TxBuffer := 0x20000100, TxLength := 5\<rparr>"
      and c = cdc_st and ll = USBD_OK and pbuff = "0x20000200" and len = 7
      and rdev = rndis_busy
      and hrndis = "hrndis0\<lparr>TxMsg := 0x20002000, rndis_TxLength := 100\<rparr>"
      and msg = "0x20003000" and hdr = "packet_hdr 100 36 56"]
    transmit_while_busy [where pdev = cdc_dev0 and hcdc = hcdc0 and c = cdc_st
      and lla = USBD_OK and llb = USBD_OK and pa = "0x20000100" and la = 5
      and pb = "0x20000200" and lb = 7
      and rdev = rndis_dev0 and hrndis = hrndis0 and hdra = "packet_hdr 100 36 56"
      and ma = "0x20002000" and mb = "0x20003000" and hdrb = "packet_hdr 64 36 20"]
  by (simp add: cdc_busy_def cdc_dev0_def hcdc0_def rndis_busy_def rndis_dev0_def hrndis0_def
      packet_hdr_def)

section \<open>Delivery of received RNDIS packets\<close>

text \<open>
  The framing test adds in 32-bit arithmetic, so it compares the message length with
  the sum modulo \<open>2^32\<close>.
\<close>

lemma RNDIS_VALID_PACKET_MSG_unat:
  "RNDIS_VALID_PACKET_MSG msg rxLength =
     (MessageLength msg = rxLength \<and> MessageType msg = REMOTE_NDIS_PACKET_MSG
      \<and> unat (MessageLength msg)
            = (unat (DataLength msg) + unat (DataOffset msg) + 8) mod 2 ^ 32)"
  by (simp add: RNDIS_VALID_PACKET_MSG_def offsetof_DataOffset_def word32_sum_eq)

text \<open>
  Claim C5, as amended. \<open>USBD_RNDIS_DataOut\<close> always returns \<open>USBD_OK\<close>. It calls the
  user's \<open>PacketReceived\<close> callback, with the address \<open>DataOffset\<close> bytes behind the
  \<open>DataOffset\<close> field and with \<open>DataLength\<close>, if and only if the callback is registered,
  the class handle is not NULL, the message length equals the received byte count, the
  message type is \<open>REMOTE_NDIS_PACKET_MSG\<close> and the message length equals
  \<open>DataLength + DataOffset + 8\<close> modulo \<open>2^32\<close>, where 8 is the offset of the
  \<open>DataOffset\<close> field and the sum is the one of natural numbers; in every other case
  nothing happens. When the sum of natural numbers is below \<open>2^32\<close>, the test is that the
  message length equals that sum. So a message with \<open>MessageLength = 108\<close>,
  \<open>DataOffset = 44\<close>, \<open>DataLength = 56\<close> is valid, as is one with 100, 36 and 56; with
  \<open>DataOffset = 44\<close> and \<open>DataLength = 56\<close>, neither \<open>MessageLength = 100\<close> nor 99 is.
\<close>

theorem packet_delivery:
  "fst (USBD_RNDIS_DataOut msg rxLength pdev epnum) = USBD_OK
   \<and> (PacketReceived (pUserData pdev) \<and> pClassData pdev = Some hrndis
        \<and> MessageLength msg = rxLength \<and> MessageType msg = REMOTE_NDIS_PACKET_MSG
        \<and> unat (MessageLength msg)
              = (unat (DataLength msg) + unat (DataOffset msg) + 8) mod 2 ^ 32 \<longrightarrow>
      snd (USBD_RNDIS_DataOut msg rxLength pdev epnum)
        = emit (Itf_PacketReceived (RxMsg hrndis + 8 + DataOffset msg) (DataLength msg)) pdev)
   \<and> (\<not> (PacketReceived (pUserData pdev) \<and> pClassData pdev \<noteq> None
        \<and> MessageLength msg = rxLength \<and> MessageType msg = REMOTE_NDIS_PACKET_MSG
        \<and> unat (MessageLength msg)
              = (unat (DataLength msg) + unat (DataOffset msg) + 8) mod 2 ^ 32) \<longrightarrow>
      snd (USBD_RNDIS_DataOut msg rxLength pdev epnum) = pdev)
   \<and> (unat (DataLength msg) + unat (DataOffset msg) + 8 < 2 ^ 32 \<longrightarrow>
        RNDIS_VALID_PACKET_MSG msg rxLength
          = (MessageLength msg = rxLength \<and> MessageType msg = REMOTE_NDIS_PACKET_MSG
             \<and> unat (MessageLength msg) = unat (DataLength msg) + unat (DataOffset msg) + 8))
   \<and> RNDIS_VALID_PACKET_MSG (packet_hdr 108 44 56) 108
   \<and> RNDIS_VALID_PACKET_MSG (packet_hdr 100 36 56) 100
   \<and> \<not> RNDIS_VALID_PACKET_MSG (packet_hdr 100 44 56) 100
   \<and> \<not> RNDIS_VALID_PACKET_MSG (packet_hdr 99 44 56) 99"
proof -
  have ex: "RNDIS_VALID_PACKET_MSG (packet_hdr 108 44 56) 108
      \<and> RNDIS_VALID_PACKET_MSG (packet_hdr 100 36 56) 100
      \<and> \<not> RNDIS_VALID_PACKET_MSG (packet_hdr 100 44 56) 100
      \<and> \<not> RNDIS_VALID_PACKET_MSG (packet_hdr 99 44 56) 99"
    by (simp add: RNDIS_VALID_PACKET_MSG_def packet_hdr_def offsetof_DataOffset_def)
  have st: "fst (USBD_RNDIS_DataOut msg rxLength pdev epnum) = USBD_OK"
    by (simp add: USBD_RNDIS_DataOut_def split: option.splits)
  have run: "USBD_RNDIS_DataOut msg rxLength pdev epnum
      = (USBD_OK,
         case pClassData pdev of
           None \<Rightarrow> pdev
         | Some h \<Rightarrow>
             if PacketReceived (pUserData pdev) \<and> RNDIS_VALID_PACKET_MSG msg rxLength
             then emit (Itf_PacketReceived (RxMsg h + 8 + DataOffset msg) (DataLength msg)) pdev
             else pdev)"
    by (simp add: USBD_RNDIS_DataOut_def offsetof_DataOffset_def split: option.splits)
  have small: "unat (DataLength msg) + unat (DataOffset msg) + 8 < 2 ^ 32 \<longrightarrow>
        RNDIS_VALID_PACKET_MSG msg rxLength
          = (MessageLength msg = rxLength \<and> MessageType msg = REMOTE_NDIS_PACKET_MSG
             \<and> unat (MessageLength msg) = unat (DataLength msg) + unat (DataOffset msg) + 8)"
    by (simp add: RNDIS_VALID_PACKET_MSG_unat)
  show ?thesis
    unfolding run
    using ex small
    by (auto simp add: RNDIS_VALID_PACKET_MSG_unat split: option.splits)
qed

text \<open>
  The sum wraps: with \<open>DataOffset = 0xFFFFFFF0\<close> and \<open>DataLength = 72\<close> it is 64 modulo
  \<open>2^32\<close>, so a message of 64 bytes with that header passes the test, and the callback
  is handed an address 8 bytes before the receive buffer.
\<close>

lemma packet_offset_wraps:
  "USBD_RNDIS_DataOut (packet_hdr 64 0xFFFFFFF0 72) 64 rndis_dev0 RNDIS_OUT_EP
     = (USBD_OK, emit (Itf_PacketReceived 0x20000FF8 72) rndis_dev0)"
  by (simp add: USBD_RNDIS_DataOut_def RNDIS_VALID_PACKET_MSG_def packet_hdr_def emit_def
      offsetof_DataOffset_def rndis_dev0_def hrndis0_def fresh_dev_def rndis_itf0_def)

text \<open>The theorem on the sample device: a frame of 108 bytes is delivered, one of 99 is dropped.\<close>

theorem packet_delivery_witness:
  "USBD_RNDIS_DataOut (packet_hdr 108 44 56) 108 rndis_dev0 RNDIS_OUT_EP
     = (USBD_OK, emit (Itf_PacketReceived 0x20001034 56) rndis_dev0)
   \<and> USBD_RNDIS_DataOut (packet_hdr 99 44 56) 99 rndis_dev0 RNDIS_OUT_EP = (USBD_OK, rndis_dev0)"
  using packet_delivery [where msg = "packet_hdr 108 44 56" and rxLength = 108
      and pdev = rndis_dev0 and hrndis = hrndis0 and epnum = RNDIS_OUT_EP]
    packet_delivery [where msg = "packet_hdr 99 44 56" and rxLength = 99
      and pdev = rndis_dev0 and hrndis = hrndis0 and epnum = RNDIS_OUT_EP]
  by (simp add: prod_eq_iff packet_hdr_def rndis_dev0_def hrndis0_def rndis_itf0_def fresh_dev_def)

text \<open>
  Claim C5 as stated calls the message with \<open>MessageLength = 100\<close>, \<open>DataOffset = 44\<close>,
  \<open>DataLength = 56\<close> valid. On a device with a registered callback and a class handle,
  that message, received with 100 bytes, is dropped.
\<close>

theorem packet_delivery_counterexample:
  "USBD_RNDIS_DataOut (packet_hdr 100 44 56) 100 rndis_dev0 RNDIS_OUT_EP = (USBD_OK, rndis_dev0)"
  by (simp add: USBD_RNDIS_DataOut_def RNDIS_VALID_PACKET_MSG_def packet_hdr_def
      offsetof_DataOffset_def rndis_dev0_def hrndis0_def fresh_dev_def rndis_itf0_def)

section \<open>The RNDIS query for the supported list\<close>

lemma take_Suc_update: "k < length xs \<Longrightarrow> take (Suc k) (xs[k := x]) = take k xs @ [x]"
  by (simp add: take_Suc_conv_app_nth)

text \<open>When the list fits behind the six header words, the copy loop writes it there.\<close>

lemma copy_oid_list_fits:
  "6 + i + length es \<le> length buf \<Longrightarrow>
   copy_oid_list es i buf = Inr (take (6 + i) buf @ map Oid es @ drop (6 + i + length es) buf)"
proof (induction es arbitrary: i buf)
  case Nil
  then show ?case by simp
next
  case (Cons e es)
  then have lt: "6 + i < length buf" by simp
  let ?buf = "buf[6 + i := Oid e]"
  from Cons.prems have "6 + Suc i + length es \<le> length ?buf" by simp
  then have "copy_oid_list es (Suc i) ?buf
      = Inr (take (6 + Suc i) ?buf @ map Oid es @ drop (6 + Suc i + length es) ?buf)"
    by (rule Cons.IH)
  moreover from lt have "take (6 + Suc i) ?buf = take (6 + i) buf @ [Oid e]"
    unfolding add_Suc_right by (rule take_Suc_update)
  moreover have "drop (6 + Suc i + length es) ?buf = drop (6 + i + length (e # es)) buf"
    by (simp add: add.assoc)
  ultimately show ?case using lt by simp
qed

text \<open>When it does not fit, the loop runs over the end of the buffer.\<close>

lemma copy_oid_list_overrun:
  "es \<noteq> [] \<Longrightarrow> length buf < 6 + i + length es \<Longrightarrow> copy_oid_list es i buf = Inl BufferOverrun"
proof (induction es arbitrary: i buf)
  case Nil
  then show ?case by simp
next
  case (Cons e es)
  show ?case
  proof (cases "6 + i < length buf")
    case False
    then show ?thesis by simp
  next
    case True
    with Cons.prems have ne: "es \<noteq> []" by auto
    from Cons.prems have "length (buf[6 + i := Oid e]) < 6 + Suc i + length es" by simp
    from Cons.IH [OF ne this] True show ?thesis by simp
  qed
qed

text \<open>
  Claim C6, as amended. When the control message has arrived in full on a device with
  a class handle, is a query and asks for \<open>OID_GEN_SUPPORTED_LIST\<close>, and the \<open>n\<close>
  registered OIDs fit into the control buffer behind the six header words
  (\<open>6 + n\<close> is at most the number of words of \<open>hrndis->data\<close>), then
  \<open>USBD_RNDIS_EP0_RxReady\<close> returns \<open>USBD_OK\<close>, transmits the response-available
  notification, and leaves in the buffer a query completion with status Success,
  \<open>InfoBufferLength = 4 * n\<close>, \<open>InfoBufferOffset = 16\<close>, the request id of the query,
  \<open>MessageLength\<close> equal to the header size 24 plus \<open>4 * n\<close>, and as payload the
  registered OIDs in registration order. The two lengths are 32-bit fields; they hold the
  numbers \<open>4 * n\<close> and \<open>24 + 4 * n\<close> themselves for every buffer of less than \<open>2^30\<close>
  words, which is every buffer of a 32-bit address space. For three OIDs,
  \<open>InfoBufferLength\<close> is 12.
\<close>

theorem supported_list_query:
  assumes h: "pClassData pdev = Some hrndis"
    and len: "rndis_data hrndis ! 1 = ucast (MsgLength hrndis)"
    and ty: "rndis_data hrndis ! 0 = REMOTE_NDIS_QUERY_MSG"
    and oid: "rndis_data hrndis ! 3 = OID_GEN_SUPPORTED_LIST"
    and fits: "6 + length (ObjectInfo (pUserData pdev)) \<le> length (rndis_data hrndis)"
  shows "\<exists>resp. USBD_RNDIS_EP0_RxReady pdev
           = Inr (USBD_OK,
                emit (LL_Transmit RNDIS_CMD_EP (Bytes [1, 0, 0, 0, 0, 0, 0, 0]) 8)
                  (pdev\<lparr>pClassData := Some (hrndis\<lparr>rndis_data := resp\<rparr>)\<rparr>))
         \<and> resp ! 0 = REMOTE_NDIS_QUERY_CMPLT
         \<and> resp ! 1 = 24 + of_nat (4 * length (ObjectInfo (pUserData pdev)))
         \<and> resp ! 2 = rndis_data hrndis ! 2
         \<and> resp ! 3 = RNDIS_STATUS_SUCCESS
         \<and> resp ! 4 = of_nat (4 * length (ObjectInfo (pUserData pdev)))
         \<and> resp ! 5 = 16
         \<and> take (length (ObjectInfo (pUserData pdev))) (drop 6 resp)
             = map Oid (ObjectInfo (pUserData pdev))
         \<and> length resp = length (rndis_data hrndis)
         \<and> (length (ObjectInfo (pUserData pdev)) = 3 \<longrightarrow> resp ! 4 = 12)
         \<and> (length (rndis_data hrndis) < 2 ^ 30 \<longrightarrow>
              unat (resp ! 4) = 4 * length (ObjectInfo (pUserData pdev))
              \<and> unat (resp ! 1) = 24 + 4 * length (ObjectInfo (pUserData pdev)))"
proof -
  let ?tbl = "ObjectInfo (pUserData pdev)"
  let ?n = "length ?tbl"
  let ?d1 = "(rndis_data hrndis)[0 := REMOTE_NDIS_QUERY_CMPLT, 3 := RNDIS_STATUS_FAILURE,
               4 := 0, 5 := sizeof_RNDIS_QueryCmpltType - offsetof_RequestID]"
  let ?d2 = "take 6 ?d1 @ map Oid ?tbl @ drop (6 + ?n) ?d1"
  let ?d3 = "?d2[3 := RNDIS_STATUS_SUCCESS, 4 := ObjectInfoCount (pUserData pdev) * 4]"
  let ?resp = "?d3[1 := sizeof_RNDIS_QueryCmpltType + ?d3 ! 4]"
  from fits have l1: "6 + 0 + ?n \<le> length ?d1" by simp
  have copy: "copy_oid_list ?tbl 0 ?d1 = Inr ?d2"
    using copy_oid_list_fits [OF l1] by simp
  have run: "USBD_RNDIS_EP0_RxReady pdev
           = Inr (USBD_OK,
                emit (LL_Transmit RNDIS_CMD_EP (Bytes [1, 0, 0, 0, 0, 0, 0, 0]) 8)
                  (pdev\<lparr>pClassData := Some (hrndis\<lparr>rndis_data := ?resp\<rparr>)\<rparr>))"
    using h len ty oid copy
    by (simp add: USBD_RNDIS_EP0_RxReady_def RxReady_QUERY_def USBD_RNDIS_ResponseReady_def
        RNDIS_ResponseAvailable_def RNDIS_CMD_PACKET_SIZE_def Let_def
        REMOTE_NDIS_QUERY_MSG_def REMOTE_NDIS_INITIALIZE_MSG_def)
  from fits have l6: "6 \<le> length (rndis_data hrndis)" by simp
  then have ne: "rndis_data hrndis \<noteq> []" by auto
  have l2: "length ?d2 = length (rndis_data hrndis)" using fits by simp
  have hd: "?d2 ! 0 = REMOTE_NDIS_QUERY_CMPLT \<and> ?d2 ! 2 = rndis_data hrndis ! 2 \<and> ?d2 ! 5 = 16"
    using l6 ne by (simp add: nth_append sizeof_RNDIS_QueryCmpltType_def offsetof_RequestID_def)
  have cnt: "ObjectInfoCount (pUserData pdev) * 4 = of_nat (4 * ?n)"
    by (simp add: ObjectInfoCount_def)
  have payload: "take ?n (drop 6 ?d2) = map Oid ?tbl"
    using l6 by simp
  have r0: "?resp ! 0 = REMOTE_NDIS_QUERY_CMPLT" using hd l2 l6 by simp
  have r3: "?resp ! 3 = RNDIS_STATUS_SUCCESS" using l2 l6 by simp
  have r4: "?resp ! 4 = of_nat (4 * ?n)" using l2 l6 cnt by simp
  have r1: "?resp ! 1 = 24 + of_nat (4 * ?n)"
    using l2 l6 cnt by (simp add: sizeof_RNDIS_QueryCmpltType_def)
  have r2: "?resp ! 2 = rndis_data hrndis ! 2" using hd l2 l6 by simp
  have r5: "?resp ! 5 = 16" using hd l2 l6 by simp
  have rp: "take ?n (drop 6 ?resp) = map Oid ?tbl"
    using payload by (simp add: drop_update_cancel)
  have rl: "length ?resp = length (rndis_data hrndis)" using l2 by simp
  have r3': "?n = 3 \<longrightarrow> ?resp ! 4 = 12"
  proof
    assume e: "?n = 3"
    have "(of_nat (4 * ?n) :: 32 word) = 12" unfolding e by simp
    with r4 show "?resp ! 4 = 12" by (simp only:)
  qed
  have ru: "length (rndis_data hrndis) < 2 ^ 30 \<longrightarrow>
      unat (?resp ! 4) = 4 * ?n \<and> unat (?resp ! 1) = 24 + 4 * ?n"
  proof
    assume b: "length (rndis_data hrndis) < 2 ^ 30"
    with fits have n6: "?n + 6 < 2 ^ 30" by simp
    then have "4 * ?n < 2 ^ 32" by simp
    then have "unat (of_nat (4 * ?n) :: 32 word) = 4 * ?n" by (rule unat_of_nat32)
    with r4 have u4: "unat (?resp ! 4) = 4 * ?n" by (simp only:)
    from n6 have "unat (24 + of_nat (4 * ?n) :: 32 word) = 24 + 4 * ?n" by (rule unat_24_4n)
    with r1 have u1: "unat (?resp ! 1) = 24 + 4 * ?n" by (simp only:)
    from u4 u1 show "unat (?resp ! 4) = 4 * ?n \<and> unat (?resp ! 1) = 24 + 4 * ?n" ..
  qed
  from run r0 r1 r2 r3 r4 r5 rp rl r3' ru show ?thesis by blast
qed

text \<open>
  The theorem on the sample device with its three registered objects: the completion is
  36 bytes long, with status 0, 12 bytes of payload at offset 16, and the three OIDs.
\<close>

theorem supported_list_query_witness:
  "take 9 (response (USBD_RNDIS_EP0_RxReady rndis_query))
       = [0x80000004, 36, 0x2A, 0, 12, 16, 0x00010102, 0x00010103, 0x01010101]"
proof -
  have h: "pClassData rndis_query = Some hrndis_query"
    by (simp add: rndis_query_def rndis_dev0_def)
  have len: "rndis_data hrndis_query ! 1 = ucast (MsgLength hrndis_query)"
    by (simp add: hrndis_query_def)
  have ty: "rndis_data hrndis_query ! 0 = REMOTE_NDIS_QUERY_MSG"
    by (simp add: hrndis_query_def)
  have oid: "rndis_data hrndis_query ! 3 = OID_GEN_SUPPORTED_LIST"
    by (simp add: hrndis_query_def)
  have n: "length (ObjectInfo (pUserData rndis_query)) = 3"
    by (simp add: rndis_query_def rndis_dev0_def fresh_dev_def rndis_itf0_def)
  have fits: "6 + length (ObjectInfo (pUserData rndis_query)) \<le> length (rndis_data hrndis_query)"
    unfolding n by (simp add: hrndis_query_def)
  from supported_list_query [OF h len ty oid fits] show ?thesis
    by (simp add: response_def USBD_RNDIS_EP0_RxReady_def RxReady_QUERY_def
        USBD_RNDIS_ResponseReady_def RNDIS_ResponseAvailable_def RNDIS_CMD_PACKET_SIZE_def
        Let_def emit_def ObjectInfoCount_def
        REMOTE_NDIS_QUERY_MSG_def REMOTE_NDIS_INITIALIZE_MSG_def OID_GEN_SUPPORTED_LIST_def
        REMOTE_NDIS_QUERY_CMPLT_def RNDIS_STATUS_FAILURE_def RNDIS_STATUS_SUCCESS_def
        sizeof_RNDIS_QueryCmpltType_def offsetof_RequestID_def
        rndis_query_def hrndis_query_def rndis_dev0_def hrndis0_def rndis_itf0_def fresh_dev_def)
qed

text \<open>
  A table that is not empty and does not fit: the copy loop writes behind the end of the
  control buffer.
\<close>

lemma supported_list_overrun:
  assumes h: "pClassData pdev = Some hrndis"
    and len: "rndis_data hrndis ! 1 = ucast (MsgLength hrndis)"
    and ty: "rndis_data hrndis ! 0 = REMOTE_NDIS_QUERY_MSG"
    and oid: "rndis_data hrndis ! 3 = OID_GEN_SUPPORTED_LIST"
    and ne: "ObjectInfo (pUserData pdev) \<noteq> []"
    and big: "length (rndis_data hrndis) < 6 + length (ObjectInfo (pUserData pdev))"
  shows "USBD_RNDIS_EP0_RxReady pdev = Inl BufferOverrun"
proof -
  let ?d1 = "(rndis_data hrndis)[0 := REMOTE_NDIS_QUERY_CMPLT, 3 := RNDIS_STATUS_FAILURE,
               4 := 0, 5 := sizeof_RNDIS_QueryCmpltType - offsetof_RequestID]"
  from big have "length ?d1 < 6 + 0 + length (ObjectInfo (pUserData pdev))" by simp
  from copy_oid_list_overrun [OF ne this]
  have "copy_oid_list (ObjectInfo (pUserData pdev)) 0 ?d1 = Inl BufferOverrun" .
  with h len ty oid show ?thesis
    by (simp add: USBD_RNDIS_EP0_RxReady_def RxReady_QUERY_def Let_def
        REMOTE_NDIS_QUERY_MSG_def REMOTE_NDIS_INITIALIZE_MSG_def)
qed

text \<open>
  Claim C6 as stated speaks of every table of registered OIDs. On the sample device with
  136 registered objects and the control buffer of 141 words, the query for the supported
  list yields no response: the loop writes the last OID behind the end of the buffer.
\<close>

theorem supported_list_query_counterexample:
  "USBD_RNDIS_EP0_RxReady rndis_query136 = Inl BufferOverrun"
proof (rule supported_list_overrun)
  show "pClassData rndis_query136 = Some hrndis_query"
    by (simp add: rndis_query136_def)
  show "rndis_data hrndis_query ! 1 = ucast (MsgLength hrndis_query)"
    by (simp add: hrndis_query_def)
  show "rndis_data hrndis_query ! 0 = REMOTE_NDIS_QUERY_MSG"
    by (simp add: hrndis_query_def)
  show "rndis_data hrndis_query ! 3 = OID_GEN_SUPPORTED_LIST"
    by (simp add: hrndis_query_def)
  show "ObjectInfo (pUserData rndis_query136) \<noteq> []"
    by (simp add: rndis_query136_def rndis_itf136_def fresh_dev_def)
  show "length (rndis_data hrndis_query) < 6 + length (ObjectInfo (pUserData rndis_query136))"
    by (simp add: rndis_query136_def rndis_itf136_def fresh_dev_def hrndis_query_def)
qed

section \<open>DFU ABORT\<close>



section \<open>DFU UPLOAD of block 1\<close>

text \<open>
  Claim C8 says that an UPLOAD of block 1 with \<open>wLength > 0\<close> from dfuIDLE or
  dfuUPLOAD-IDLE stalls the control transfer and enters the state dfuERROR with the
  stalled-packet error on record. The code does signal the control error, but it assigns
  the error code \<open>DFU_ERROR_STALLEDPKT\<close> to the state \<open>dev_state\<close> (and to the state byte of
  the status record) and leaves the error byte \<open>bStatus\<close> as it was.
\<close>

theorem upload_block_1:
  "pClassData pdev = Some hdfu
   \<and> (dev_state hdfu = DFU_STATE_IDLE c \<or> dev_state hdfu = DFU_STATE_UPLOAD_IDLE c)
   \<and> 0 < wLength req \<and> wValue req = 1 \<longrightarrow>
   DFU_Upload c pdev req =
     Inr (emit CtlError (pdev\<lparr>pClassData := Some (hdfu
       \<lparr>wblock_num := 1, wlength := ucast (wLength req),
        dev_state := DFU_ERROR_STALLEDPKT c,
        dev_status := (dev_status hdfu)\<lparr>bwPollTimeout_0 := 0, bwPollTimeout_1 := 0,
          bwPollTimeout_2 := 0, bState := DFU_ERROR_STALLEDPKT c\<rparr>\<rparr>)\<rparr>))"
  by (auto simp add: DFU_Upload_def with_hdfu_def set_hdfu_def poll0_state_def Let_def)

text \<open>
  With the codes of DFU 1.1: the state becomes \<open>0x0F\<close>, which is none of the nine states
  (dfuERROR is \<open>0x0A\<close>), and the error byte still says no error.
\<close>

theorem upload_block_1_witness:
  "USBD_DFU_Setup usb20 dfu11 dfu_dev0 (upload_req 1) =
     Inr (USBD_OK, emit CtlError (dfu_dev0\<lparr>pClassData := Some (hdfu0
       \<lparr>wblock_num := 1, wlength := 64,
        dev_state := 0x0F, dev_status := (dev_status hdfu0)\<lparr>bState := 0x0F\<rparr>\<rparr>)\<rparr>))
   \<and> DFU_STATE_ERROR dfu11 = 0x0A \<and> DFU_ERROR_STALLEDPKT dfu11 = 0x0F
   \<and> bStatus (dev_status hdfu0) = DFU_ERROR_NONE dfu11"
  using upload_block_1 [where pdev = dfu_dev0 and hdfu = hdfu0 and c = dfu11 and req = "upload_req 1"]
  by (simp add: USBD_DFU_Setup_def upload_req_def dfu_dev0_def hdfu0_def dfu11_def usb20_def)

section \<open>The state byte of the DFU status record\<close>

lemma matching_emit [simp]: "matching (emit e pdev) = matching pdev"
  by (simp add: matching_def emit_def)

lemma matching_set_hdfu [simp]: "matching (set_hdfu pdev hdfu) = status_matches hdfu"
  by (simp add: matching_def set_hdfu_def)

lemma matching_Some: "pClassData pdev = Some hdfu \<Longrightarrow> matching pdev = status_matches hdfu"
  by (simp add: matching_def)

lemma returns_matching_Inr [simp]: "returns_matching (Inr pdev) = matching pdev"
  by (simp add: returns_matching_def)

lemma status_matches_poll0_state [simp]: "status_matches (poll0_state hdfu)"
  by (simp add: status_matches_def poll0_state_def)

lemma status_matches_reset_to_idle [simp]: "status_matches (reset_to_idle c hdfu)"
  by (simp add: status_matches_def reset_to_idle_def Let_def)

lemma status_matches_other_fields [simp]:
  "status_matches (hdfu\<lparr>wlength := l\<rparr>) = status_matches hdfu"
  "status_matches (hdfu\<lparr>wblock_num := b\<rparr>) = status_matches hdfu"
  "status_matches (hdfu\<lparr>alt_setting := a\<rparr>) = status_matches hdfu"
  "status_matches (hdfu\<lparr>data_ptr := p\<rparr>) = status_matches hdfu"
  "status_matches (hdfu\<lparr>buffer_d8 := d\<rparr>) = status_matches hdfu"
  "status_matches (hdfu\<lparr>manif_state := m\<rparr>) = status_matches hdfu"
  by (simp_all add: status_matches_def)

lemma status_matches_set_both [simp]:
  "status_matches (hdfu\<lparr>dev_state := s, dev_status := st\<rparr>) = (bState st = s)"
  by (simp add: status_matches_def)

lemma Init_matching: "matching (snd (USBD_DFU_Init c (Some block) pdev cfgidx))"
  by (simp add: USBD_DFU_Init_def Let_def matching_def emit_def status_matches_def)

lemma Download_matching:
  "pClassData pdev = Some hdfu \<Longrightarrow> status_matches hdfu \<Longrightarrow>
   returns_matching (DFU_Download c pdev req)"
  by (simp add: DFU_Download_def with_hdfu_def Let_def matching_Some)

lemma Upload_matching:
  "pClassData pdev = Some hdfu \<Longrightarrow> status_matches hdfu \<Longrightarrow>
   returns_matching (DFU_Upload c pdev req)"
  by (simp add: DFU_Upload_def with_hdfu_def Let_def matching_Some split: option.splits)

lemma GetStatus_matching:
  "GetStatus_keeps_bState (pUserData pdev) \<Longrightarrow> pClassData pdev = Some hdfu \<Longrightarrow>
   status_matches hdfu \<Longrightarrow> returns_matching (DFU_GetStatus c pdev)"
  by (simp add: DFU_GetStatus_def with_hdfu_def Let_def matching_Some GetStatus_keeps_bState_def
      status_matches_def poll0_state_def split: option.splits)

lemma ClearStatus_matching:
  "pClassData pdev = Some hdfu \<Longrightarrow> status_matches hdfu \<Longrightarrow>
   returns_matching (DFU_ClearStatus c pdev)"
  by (simp add: DFU_ClearStatus_def with_hdfu_def Let_def matching_Some)

lemma GetState_matching:
  "pClassData pdev = Some hdfu \<Longrightarrow> status_matches hdfu \<Longrightarrow>
   returns_matching (DFU_GetState pdev)"
  by (simp add: DFU_GetState_def matching_Some)

lemma Abort_matching:
  "pClassData pdev = Some hdfu \<Longrightarrow> status_matches hdfu \<Longrightarrow>
   returns_matching (DFU_Abort c pdev)"
  by (simp add: DFU_Abort_def with_hdfu_def matching_Some)

lemma Detach_matching:
  "pClassData pdev = Some hdfu \<Longrightarrow> status_matches hdfu \<Longrightarrow>
   returns_matching (DFU_Detach c pdev req)"
  by (simp add: DFU_Detach_def with_hdfu_def Let_def matching_Some)

lemma Leave_matching:
  "pClassData pdev = Some hdfu \<Longrightarrow> returns_matching (DFU_Leave c pdev)"
  by (simp add: DFU_Leave_def with_hdfu_def Let_def)

lemma download_ready_matching: "matching (download_ready c pdev hdfu)"
  by (simp add: download_ready_def Let_def split: prod.splits)

lemma device_done:
  "device (case r of Inl f \<Rightarrow> Inl f | Inr pdev' \<Rightarrow> Inr (USBD_OK, pdev')) = r"
  by (simp add: device_def split: sum.splits)

lemma device_Inr [simp]: "device (Inr (st, pdev)) = Inr pdev"
  by (simp add: device_def)

lemma TxReady_matching:
  "pClassData pdev = Some hdfu \<Longrightarrow> status_matches hdfu \<Longrightarrow>
   returns_matching (device (USBD_DFU_EP0_TxReady c pdev))"
  using Leave_matching [of pdev hdfu c]
  by (simp add: USBD_DFU_EP0_TxReady_def download_ready_matching device_done matching_Some)


lemma if_cases: "(c \<Longrightarrow> P a) \<Longrightarrow> (\<not> c \<Longrightarrow> P b) \<Longrightarrow> P (if c then a else b)"
  by simp

lemma Setup_cases:
  assumes "P (DFU_Download c pdev req)" and "P (DFU_Upload c pdev req)"
    and "P (DFU_GetStatus c pdev)" and "P (DFU_ClearStatus c pdev)"
    and "P (DFU_GetState pdev)" and "P (DFU_Abort c pdev)" and "P (DFU_Detach c pdev req)"
    and "\<And>e. P (Inr (emit e pdev))" and "P (Inr pdev)"
    and "P (with_hdfu pdev (\<lambda>hdfu. set_hdfu pdev (hdfu\<lparr>alt_setting := ucast (wValue req)\<rparr>)))"
  shows "P (device (USBD_DFU_Setup d c pdev req))"
  unfolding USBD_DFU_Setup_def Let_def
  apply (intro if_cases [where P = "\<lambda>r. P (device r)"])
    apply (simp_all only: device_done device_Inr)
    apply (intro if_cases [where P = P] assms)
   apply (intro if_cases [where P = P] assms)
  apply (rule assms)
  done

lemma Setup_matching:
  assumes cb: "GetStatus_keeps_bState (pUserData pdev)"
    and h: "pClassData pdev = Some hdfu" and m: "status_matches hdfu"
  shows "returns_matching (device (USBD_DFU_Setup d c pdev req))"
proof (rule Setup_cases)
  show "returns_matching (DFU_Download c pdev req)" by (rule Download_matching [OF h m])
  show "returns_matching (DFU_Upload c pdev req)" by (rule Upload_matching [OF h m])
  show "returns_matching (DFU_GetStatus c pdev)" by (rule GetStatus_matching [OF cb h m])
  show "returns_matching (DFU_ClearStatus c pdev)" by (rule ClearStatus_matching [OF h m])
  show "returns_matching (DFU_GetState pdev)" by (rule GetState_matching [OF h m])
  show "returns_matching (DFU_Abort c pdev)" by (rule Abort_matching [OF h m])
  show "returns_matching (DFU_Detach c pdev req)" by (rule Detach_matching [OF h m])
  show "returns_matching (Inr (emit e pdev))" for e using h m by (simp add: matching_Some)
  show "returns_matching (Inr pdev)" using h m by (simp add: matching_Some)
  show "returns_matching
          (with_hdfu pdev (\<lambda>hdfu. set_hdfu pdev (hdfu\<lparr>alt_setting := ucast (wValue req)\<rparr>)))"
    using h m by (simp add: with_hdfu_def)
qed

lemma GetStatus_sends:
  "pClassData pdev = Some hdfu \<Longrightarrow>
   (case DFU_GetStatus c pdev of
      Inl f \<Rightarrow> False
    | Inr p \<Rightarrow>
        (case pClassData p of
           None \<Rightarrow> False
         | Some h \<Rightarrow> last (ll_trace p) = CtlSendData (Bytes (status_bytes (dev_status h))) 6))"
  by (simp add: DFU_GetStatus_def with_hdfu_def Let_def emit_def set_hdfu_def split: option.splits)

lemma GetStatus_reports:
  assumes cb: "GetStatus_keeps_bState (pUserData pdev)"
    and h: "pClassData pdev = Some hdfu" and m: "status_matches hdfu"
  shows "reports_state (DFU_GetStatus c pdev)"
proof -
  from GetStatus_matching [OF cb h m, of c] obtain p h' where
    r: "DFU_GetStatus c pdev = Inr p" and h': "pClassData p = Some h'" and m': "status_matches h'"
    by (auto simp: returns_matching_def matching_def split: sum.splits option.splits)
  from GetStatus_sends [OF h, of c] r h'
  have "last (ll_trace p) = CtlSendData (Bytes (status_bytes (dev_status h'))) 6" by simp
  moreover from m' have "status_bytes (dev_status h') ! 4 = dev_state h'"
    by (simp add: status_matches_def status_bytes_def)
  moreover from h' have "DFU_GetState p = Inr (emit (CtlSendData (Bytes [dev_state h']) 1) p)"
    by (simp add: DFU_GetState_def)
  ultimately show ?thesis using r h' by (simp add: reports_state_def)
qed

lemma user_Inr [simp]: "user (Inr pdev) = Some (pUserData pdev)"
  by (simp add: user_def)

lemma pUserData_emit [simp]: "pUserData (emit e pdev) = pUserData pdev"
  by (simp add: emit_def)

lemma pUserData_set_hdfu [simp]: "pUserData (set_hdfu pdev h) = pUserData pdev"
  by (simp add: set_hdfu_def)

lemma Download_user:
  "pClassData pdev = Some hdfu \<Longrightarrow> user (DFU_Download c pdev req) = Some (pUserData pdev)"
  by (simp add: DFU_Download_def with_hdfu_def Let_def)

lemma Upload_user:
  "pClassData pdev = Some hdfu \<Longrightarrow> user (DFU_Upload c pdev req) = Some (pUserData pdev)"
  by (simp add: DFU_Upload_def with_hdfu_def Let_def split: option.splits)

lemma GetStatus_user:
  "pClassData pdev = Some hdfu \<Longrightarrow> user (DFU_GetStatus c pdev) = Some (pUserData pdev)"
  by (simp add: DFU_GetStatus_def with_hdfu_def Let_def split: option.splits)

lemma ClearStatus_user:
  "pClassData pdev = Some hdfu \<Longrightarrow> user (DFU_ClearStatus c pdev) = Some (pUserData pdev)"
  by (simp add: DFU_ClearStatus_def with_hdfu_def Let_def)

lemma GetState_user:
  "pClassData pdev = Some hdfu \<Longrightarrow> user (DFU_GetState pdev) = Some (pUserData pdev)"
  by (simp add: DFU_GetState_def)

lemma Abort_user:
  "pClassData pdev = Some hdfu \<Longrightarrow> user (DFU_Abort c pdev) = Some (pUserData pdev)"
  by (simp add: DFU_Abort_def with_hdfu_def)

lemma Detach_user:
  "pClassData pdev = Some hdfu \<Longrightarrow> user (DFU_Detach c pdev req) = Some (pUserData pdev)"
  by (simp add: DFU_Detach_def with_hdfu_def Let_def)

lemma Leave_user:
  "pClassData pdev = Some hdfu \<Longrightarrow> user (DFU_Leave c pdev) = Some (pUserData pdev)"
  by (simp add: DFU_Leave_def with_hdfu_def Let_def)

lemma download_ready_pUserData [simp]: "pUserData (download_ready c pdev hdfu) = pUserData pdev"
  by (simp add: download_ready_def Let_def split: prod.splits)

lemma TxReady_user:
  "pClassData pdev = Some hdfu \<Longrightarrow>
   user (device (USBD_DFU_EP0_TxReady c pdev)) = Some (pUserData pdev)"
  using Leave_user [of pdev hdfu c]
  by (simp add: USBD_DFU_EP0_TxReady_def device_done)

lemma Setup_user:
  assumes h: "pClassData pdev = Some hdfu"
  shows "user (device (USBD_DFU_Setup d c pdev req)) = Some (pUserData pdev)"
proof (rule Setup_cases [where P = "\<lambda>r. user r = Some (pUserData pdev)"])
  show "user (DFU_Download c pdev req) = Some (pUserData pdev)" by (rule Download_user [OF h])
  show "user (DFU_Upload c pdev req) = Some (pUserData pdev)" by (rule Upload_user [OF h])
  show "user (DFU_GetStatus c pdev) = Some (pUserData pdev)" by (rule GetStatus_user [OF h])
  show "user (DFU_ClearStatus c pdev) = Some (pUserData pdev)" by (rule ClearStatus_user [OF h])
  show "user (DFU_GetState pdev) = Some (pUserData pdev)" by (rule GetState_user [OF h])
  show "user (DFU_Abort c pdev) = Some (pUserData pdev)" by (rule Abort_user [OF h])
  show "user (DFU_Detach c pdev req) = Some (pUserData pdev)" by (rule Detach_user [OF h])
  show "user (Inr (emit e pdev)) = Some (pUserData pdev)" for e by simp
  show "user (Inr pdev) = Some (pUserData pdev)" by simp
  show "user (with_hdfu pdev (\<lambda>hdfu. set_hdfu pdev (hdfu\<lparr>alt_setting := ucast (wValue req)\<rparr>)))
          = Some (pUserData pdev)"
    using h by (simp add: with_hdfu_def)
qed

lemma returns_matchingD:
  "returns_matching (device r) \<Longrightarrow>
   \<exists>st p h. r = Inr (st, p) \<and> pClassData p = Some h \<and> status_matches h"
  by (auto simp: returns_matching_def device_def matching_def split: sum.splits option.splits)

lemma run_matching:
  "GetStatus_keeps_bState (pUserData pdev) \<Longrightarrow> pClassData pdev = Some hdfu \<Longrightarrow>
   status_matches hdfu \<Longrightarrow> returns_matching (dfu_run d c pdev es)"
proof (induction es arbitrary: pdev hdfu)
  case Nil
  then show ?case by (simp add: matching_Some)
next
  case (Cons e es)
  note cb = Cons.prems(1) and h = Cons.prems(2) and m = Cons.prems(3)
  show ?case
  proof (cases e)
    case (Setup req)
    from returns_matchingD [OF Setup_matching [OF cb h m, of d c req]] obtain st p' h' where
      s: "USBD_DFU_Setup d c pdev req = Inr (st, p')" and h': "pClassData p' = Some h'"
      and m': "status_matches h'"
      by blast
    from Setup_user [OF h, of d c req] s have "pUserData p' = pUserData pdev" by simp
    with cb have "GetStatus_keeps_bState (pUserData p')" by simp
    from Cons.IH [OF this h' m'] s Setup show ?thesis by simp
  next
    case EP0_TxReady
    from returns_matchingD [OF TxReady_matching [OF h m, of c]] obtain st p' h' where
      s: "USBD_DFU_EP0_TxReady c pdev = Inr (st, p')" and h': "pClassData p' = Some h'"
      and m': "status_matches h'"
      by blast
    from TxReady_user [OF h, of c] s have "pUserData p' = pUserData pdev" by simp
    with cb have "GetStatus_keeps_bState (pUserData p')" by simp
    from Cons.IH [OF this h' m'] s EP0_TxReady show ?thesis by simp
  qed
qed

lemma Init_handle:
  "\<exists>h. pClassData (snd (USBD_DFU_Init c (Some block) pdev cfgidx)) = Some h \<and> status_matches h
       \<and> pUserData (snd (USBD_DFU_Init c (Some block) pdev cfgidx)) = pUserData pdev"
  by (simp add: USBD_DFU_Init_def Let_def emit_def status_matches_def)

text \<open>
  Claim C9, as amended. Provided the medium's \<open>GetStatus\<close> callback, which is handed the
  status record, leaves the state byte \<open>dev_status[4]\<close> as the driver set it: after an
  \<open>Init\<close> that got its handle, after every run of control requests and data stages that
  the core delivers from there, and after each of \<open>DFU_Download\<close>, \<open>DFU_Upload\<close>,
  \<open>DFU_GetStatus\<close>, \<open>DFU_ClearStatus\<close>, \<open>DFU_Abort\<close>, \<open>DFU_Detach\<close>, \<open>DFU_Leave\<close>,
  the data-stage callback and \<open>Setup\<close> on a device where it held before, the call has
  returned and the state byte of the status record equals \<open>dev_state\<close>; the state byte
  that GETSTATUS sends is the byte that a GETSTATE sends next.
\<close>

theorem status_tracks_state:
  "matching (snd (USBD_DFU_Init c (Some block) idev cfgidx))
   \<and> (GetStatus_keeps_bState (pUserData idev) \<longrightarrow>
        returns_matching (dfu_run d c (snd (USBD_DFU_Init c (Some block) idev cfgidx)) es))
   \<and> (GetStatus_keeps_bState (pUserData pdev) \<and> pClassData pdev = Some hdfu
        \<and> status_matches hdfu \<longrightarrow>
        returns_matching (DFU_Download c pdev req)
      \<and> returns_matching (DFU_Upload c pdev req)
      \<and> returns_matching (DFU_GetStatus c pdev)
      \<and> returns_matching (DFU_ClearStatus c pdev)
      \<and> returns_matching (DFU_Abort c pdev)
      \<and> returns_matching (DFU_Detach c pdev req)
      \<and> returns_matching (DFU_Leave c pdev)
      \<and> returns_matching (device (USBD_DFU_EP0_TxReady c pdev))
      \<and> returns_matching (device (USBD_DFU_Setup d c pdev req))
      \<and> reports_state (DFU_GetStatus c pdev))"
proof (intro conjI impI)
  show "matching (snd (USBD_DFU_Init c (Some block) idev cfgidx))" by (rule Init_matching)
next
  assume cb: "GetStatus_keeps_bState (pUserData idev)"
  from Init_handle [of c block idev cfgidx] obtain h where
    h: "pClassData (snd (USBD_DFU_Init c (Some block) idev cfgidx)) = Some h"
    and m: "status_matches h"
    and u: "pUserData (snd (USBD_DFU_Init c (Some block) idev cfgidx)) = pUserData idev"
    by blast
  from cb u have "GetStatus_keeps_bState (pUserData (snd (USBD_DFU_Init c (Some block) idev cfgidx)))"
    by simp
  from run_matching [OF this h m]
  show "returns_matching (dfu_run d c (snd (USBD_DFU_Init c (Some block) idev cfgidx)) es)" .
next
  assume a: "GetStatus_keeps_bState (pUserData pdev) \<and> pClassData pdev = Some hdfu
        \<and> status_matches hdfu"
  then have cb: "GetStatus_keeps_bState (pUserData pdev)" and h: "pClassData pdev = Some hdfu"
    and m: "status_matches hdfu" by simp_all
  show "returns_matching (DFU_Download c pdev req)" by (rule Download_matching [OF h m])
  show "returns_matching (DFU_Upload c pdev req)" by (rule Upload_matching [OF h m])
  show "returns_matching (DFU_GetStatus c pdev)" by (rule GetStatus_matching [OF cb h m])
  show "returns_matching (DFU_ClearStatus c pdev)" by (rule ClearStatus_matching [OF h m])
  show "returns_matching (DFU_Abort c pdev)" by (rule Abort_matching [OF h m])
  show "returns_matching (DFU_Detach c pdev req)" by (rule Detach_matching [OF h m])
  show "returns_matching (DFU_Leave c pdev)" by (rule Leave_matching [OF h])
  show "returns_matching (device (USBD_DFU_EP0_TxReady c pdev))" by (rule TxReady_matching [OF h m])
  show "returns_matching (device (USBD_DFU_Setup d c pdev req))" by (rule Setup_matching [OF cb h m])
  show "reports_state (DFU_GetStatus c pdev)" by (rule GetStatus_reports [OF cb h m])
qed

text \<open>
  The theorem on the sample device, whose callback only sets the poll timeout: after a
  download of block 2, a GETSTATUS, the data stage and another GETSTATUS, and for a
  GETSTATUS in state dfuDNLOAD-SYNC with data pending.
\<close>

theorem status_tracks_state_witness:
  "returns_matching (dfu_run usb20 dfu11 (snd (USBD_DFU_Init dfu11 (Some hdfu0) (fresh_dev dfu_media0) 1))
        [Setup (dnload_req 2), Setup getstatus_req, EP0_TxReady, Setup getstatus_req])
   \<and> returns_matching (device (USBD_DFU_Setup usb20 dfu11 (dfu_in 3) getstatus_req))
   \<and> reports_state (DFU_GetStatus dfu11 (dfu_in 3))"
proof -
  have cb: "GetStatus_keeps_bState (pUserData (fresh_dev dfu_media0 :: dfu_dev))"
    by (simp add: GetStatus_keeps_bState_def fresh_dev_def dfu_media0_def)
  have cb': "GetStatus_keeps_bState (pUserData (dfu_in 3))"
    by (simp add: GetStatus_keeps_bState_def dfu_in_def dfu_dev0_def fresh_dev_def dfu_media0_def)
  have h: "pClassData (dfu_in 3) = Some (hdfu_in 3)" by (simp add: dfu_in_def)
  have m: "status_matches (hdfu_in 3)" by (simp add: status_matches_def hdfu_in_def)
  from status_tracks_state [where idev = "fresh_dev dfu_media0" and c = dfu11 and d = usb20
      and block = hdfu0 and cfgidx = 1
      and es = "[Setup (dnload_req 2), Setup getstatus_req, EP0_TxReady, Setup getstatus_req]"
      and pdev = "dfu_in 3" and hdfu = "hdfu_in 3" and req = getstatus_req]
    cb cb' h m
  show ?thesis by simp
qed

text \<open>
  Claim C9 as stated holds the state byte equal to \<open>dev_state\<close> after every handler.
  Over a medium whose \<open>GetStatus\<close> callback reports a write error in the record, an
  \<open>Init\<close>, a download of block 2 and a GETSTATUS leave \<open>dev_state\<close> at dfuDNBUSY (4)
  and the state byte at dfuERROR (10).
\<close>

theorem status_tracks_state_counterexample:
  "map_option dev_state
     (hdfu_of (dfu_run usb20 dfu11 (snd (USBD_DFU_Init dfu11 (Some hdfu0) (fresh_dev dfu_media_err) 1))
        [Setup (dnload_req 2), Setup getstatus_req])) = Some 4
   \<and> map_option (bState \<circ> dev_status)
     (hdfu_of (dfu_run usb20 dfu11 (snd (USBD_DFU_Init dfu11 (Some hdfu0) (fresh_dev dfu_media_err) 1))
        [Setup (dnload_req 2), Setup getstatus_req])) = Some 0x0A"
  by (simp add: hdfu_of_def USBD_DFU_Init_def USBD_DFU_Setup_def DFU_Download_def DFU_GetStatus_def
      with_hdfu_def set_hdfu_def emit_def poll0_state_def Let_def
      dnload_req_def getstatus_req_def usb20_def dfu11_def hdfu0_def fresh_dev_def
      dfu_media_err_def dfu_media0_def)

section \<open>The return value of USBD\_RNDIS\_SendStatus\<close>

text \<open>
  Claim C10. \<open>USBD_RNDIS_SendStatus\<close> returns \<open>USBD_FAIL\<close> on every call. That includes
  the path on which it does its work: with a class handle and the control endpoint idle
  it writes the indicate-status message (type, length 20, the status, zero buffer length
  and offset) into the first five words of the control buffer, leaves the rest of the
  buffer, and transmits the response-available notification on the command endpoint.
\<close>

theorem send_status_returns_fail:
  "fst (USBD_RNDIS_SendStatus pdev status) = USBD_FAIL
   \<and> (pClassData pdev = Some hrndis \<and> ep0_state pdev = USBD_EP0_IDLE
        \<and> 5 \<le> length (rndis_data hrndis) \<longrightarrow>
      (\<exists>msg. USBD_RNDIS_SendStatus pdev status
          = (USBD_FAIL,
             emit (LL_Transmit RNDIS_CMD_EP (Bytes [1, 0, 0, 0, 0, 0, 0, 0]) 8)
               (pdev\<lparr>pClassData := Some (hrndis\<lparr>rndis_data := msg\<rparr>)\<rparr>))
        \<and> msg ! 0 = REMOTE_NDIS_INDICATE_STATUS_MSG \<and> msg ! 1 = 20 \<and> msg ! 2 = status
        \<and> msg ! 3 = 0 \<and> msg ! 4 = 0
        \<and> length msg = length (rndis_data hrndis)
        \<and> drop 5 msg = drop 5 (rndis_data hrndis)))"
proof (intro conjI impI)
  show "fst (USBD_RNDIS_SendStatus pdev status) = USBD_FAIL"
    by (simp add: USBD_RNDIS_SendStatus_def Let_def split: option.splits)
next
  assume a: "pClassData pdev = Some hrndis \<and> ep0_state pdev = USBD_EP0_IDLE
        \<and> 5 \<le> length (rndis_data hrndis)"
  let ?msg = "(rndis_data hrndis)[0 := REMOTE_NDIS_INDICATE_STATUS_MSG,
     1 := sizeof_RNDIS_IndStatusMsgType, 2 := status, 3 := 0, 4 := 0]"
  from a have "USBD_RNDIS_SendStatus pdev status
          = (USBD_FAIL,
             emit (LL_Transmit RNDIS_CMD_EP (Bytes [1, 0, 0, 0, 0, 0, 0, 0]) 8)
               (pdev\<lparr>pClassData := Some (hrndis\<lparr>rndis_data := ?msg\<rparr>)\<rparr>))"
    by (simp add: USBD_RNDIS_SendStatus_def USBD_RNDIS_ResponseReady_def Let_def
        RNDIS_ResponseAvailable_def RNDIS_CMD_PACKET_SIZE_def)
  moreover from a have ne: "rndis_data hrndis \<noteq> []" by auto
  from a ne have "?msg ! 0 = REMOTE_NDIS_INDICATE_STATUS_MSG \<and> ?msg ! 1 = 20
      \<and> ?msg ! 2 = status \<and> ?msg ! 3 = 0 \<and> ?msg ! 4 = 0
      \<and> length ?msg = length (rndis_data hrndis)
      \<and> drop 5 ?msg = drop 5 (rndis_data hrndis)"
    by (simp add: sizeof_RNDIS_IndStatusMsgType_def)
  ultimately show "\<exists>msg. USBD_RNDIS_SendStatus pdev status
          = (USBD_FAIL,
             emit (LL_Transmit RNDIS_CMD_EP (Bytes [1, 0, 0, 0, 0, 0, 0, 0]) 8)
               (pdev\<lparr>pClassData := Some (hrndis\<lparr>rndis_data := msg\<rparr>)\<rparr>))
        \<and> msg ! 0 = REMOTE_NDIS_INDICATE_STATUS_MSG \<and> msg ! 1 = 20 \<and> msg ! 2 = status
        \<and> msg ! 3 = 0 \<and> msg ! 4 = 0
        \<and> length msg = length (rndis_data hrndis)
        \<and> drop 5 msg = drop 5 (rndis_data hrndis)"
    by blast
qed

text \<open>The theorem on the sample device, for the status RNDIS\_STATUS\_MEDIA\_CONNECT.\<close>

theorem send_status_returns_fail_witness:
  "fst (USBD_RNDIS_SendStatus rndis_dev0 0x4001000B) = USBD_FAIL
   \<and> ll_trace (snd (USBD_RNDIS_SendStatus rndis_dev0 0x4001000B))
       = [LL_Transmit 0x81 (Bytes [1, 0, 0, 0, 0, 0, 0, 0]) 8]
   \<and> map_option (\<lambda>h. map ((!) (rndis_data h)) [0, 1, 2, 3, 4])
         (pClassData (snd (USBD_RNDIS_SendStatus rndis_dev0 0x4001000B)))
       = Some [7, 20, 0x4001000B, 0, 0]"
  using send_status_returns_fail [where pdev = rndis_dev0 and hrndis = hrndis0
      and status = "0x4001000B"]
  by (auto simp add: emit_def rndis_dev0_def hrndis0_def fresh_dev_def RNDIS_CMD_EP_def
      REMOTE_NDIS_INDICATE_STATUS_MSG_def)

end
